theory Spec2Isabelle
  imports Main "HOL-Library.AList"
begin

section \<open>Python values, errors and dictionaries\<close>

text \<open>
  The module \<^verbatim>\<open>dsrag/dsparse/file_parsing/file_system.py\<close> defines the abstract class
  \<^verbatim>\<open>FileSystem\<close> and its two subclasses \<^verbatim>\<open>LocalFileSystem\<close> and \<^verbatim>\<open>S3FileSystem\<close>.
  Every exception the module can raise is a value of \<open>py_error\<close>; a call that may raise
  returns \<open>py_error + 'a\<close>, with \<open>Inl\<close> for the exception.
\<close>

datatype py_error =
    ValueError string
  | TypeError
  | KeyError string
  | FileNotFoundError
  | NotADirectoryError
  | IsADirectoryError
  | FileExistsError
  | OSError
  | JSONDecodeError
  | RuntimeError string
  | UnicodeDecodeError
  | NoSuchKey
  | ClientError

text \<open>
  The values a backend descriptor holds: a string or \<^verbatim>\<open>None\<close>. Python does not check
  the annotation \<^verbatim>\<open>base_path: str\<close>, so an attribute holds whatever the constructor was
  given.
\<close>

datatype pyval = PyNone | PyStr string

text \<open>\<^verbatim>\<open>str(v)\<close>, as the f-string of \<^verbatim>\<open>from_dict\<close> formats the name.\<close>

fun py_str :: "pyval \<Rightarrow> string" where
  "py_str PyNone = ''None''"
| "py_str (PyStr s) = s"

text \<open>
  A \<^verbatim>\<open>dict\<close> with string keys is an association list in insertion order.
  \<^verbatim>\<open>d[k] = v\<close> and \<^verbatim>\<open>d.update\<close> are \<open>AList.update\<close> (an existing key keeps its
  place, a new one goes to the end), \<^verbatim>\<open>d.pop(k, None)\<close> reads with \<open>dict_get\<close> and
  removes with \<open>AList.delete\<close>.
\<close>

type_synonym pydict = "(string \<times> pyval) list"

definition dict_get :: "pydict \<Rightarrow> string \<Rightarrow> pyval" where
  "dict_get d k = (case map_of d k of None \<Rightarrow> PyNone | Some v \<Rightarrow> v)"

fun dict_update :: "pydict \<Rightarrow> pydict \<Rightarrow> pydict" where
  "dict_update d [] = d"
| "dict_update d ((k, v) # kvs) = dict_update (AList.update k v d) kvs"

section \<open>The classes and the registry\<close>

datatype py_class = LocalFileSystem_cls | S3FileSystem_cls

fun class_name :: "py_class \<Rightarrow> string" where
  "class_name LocalFileSystem_cls = ''LocalFileSystem''"
| "class_name S3FileSystem_cls = ''S3FileSystem''"

text \<open>
  An instance, with the attributes \<^verbatim>\<open>__init__\<close> sets:
  \<^verbatim>\<open>LocalFileSystem(base_path)\<close> and
  \<^verbatim>\<open>S3FileSystem(base_path, bucket_name, region_name, access_key, secret_key,
  error_table, dynamodb_table_name, dynamodb_client_data_table_name)\<close>.
\<close>

datatype file_system =
    LocalFileSystem pyval
  | S3FileSystem pyval pyval pyval pyval pyval pyval pyval pyval

fun class_of :: "file_system \<Rightarrow> py_class" where
  "class_of (LocalFileSystem _) = LocalFileSystem_cls"
| "class_of (S3FileSystem _ _ _ _ _ _ _ _) = S3FileSystem_cls"

fun base_path :: "file_system \<Rightarrow> pyval" where
  "base_path (LocalFileSystem b) = b"
| "base_path (S3FileSystem b _ _ _ _ _ _ _) = b"

fun bucket_name :: "file_system \<Rightarrow> pyval" where
  "bucket_name (S3FileSystem _ bk _ _ _ _ _ _) = bk"
| "bucket_name (LocalFileSystem _) = PyNone"

fun region_name :: "file_system \<Rightarrow> pyval" where
  "region_name (S3FileSystem _ _ r _ _ _ _ _) = r"
| "region_name (LocalFileSystem _) = PyNone"

fun access_key :: "file_system \<Rightarrow> pyval" where
  "access_key (S3FileSystem _ _ _ a _ _ _ _) = a"
| "access_key (LocalFileSystem _) = PyNone"

fun secret_key :: "file_system \<Rightarrow> pyval" where
  "secret_key (S3FileSystem _ _ _ _ s _ _ _) = s"
| "secret_key (LocalFileSystem _) = PyNone"

fun error_table :: "file_system \<Rightarrow> pyval" where
  "error_table (S3FileSystem _ _ _ _ _ e _ _) = e"
| "error_table (LocalFileSystem _) = PyNone"

fun dynamodb_table_name :: "file_system \<Rightarrow> pyval" where
  "dynamodb_table_name (S3FileSystem _ _ _ _ _ _ d _) = d"
| "dynamodb_table_name (LocalFileSystem _) = PyNone"

fun dynamodb_client_data_table_name :: "file_system \<Rightarrow> pyval" where
  "dynamodb_client_data_table_name (S3FileSystem _ _ _ _ _ _ _ d) = d"
| "dynamodb_client_data_table_name (LocalFileSystem _) = PyNone"

text \<open>
  \<^verbatim>\<open>FileSystem.subclasses = {}\<close> is one dictionary shared by all subclasses;
  \<^verbatim>\<open>__init_subclass__\<close> stores each class under its \<^verbatim>\<open>__name__\<close> when the class
  statement runs. \<open>subclasses\<close> is the registry once the module is loaded.
\<close>

type_synonym registry = "(string \<times> py_class) list"

definition init_subclass :: "registry \<Rightarrow> py_class \<Rightarrow> registry" where
  "init_subclass reg c = AList.update (class_name c) c reg"

definition subclasses :: registry where
  "subclasses = init_subclass (init_subclass [] LocalFileSystem_cls) S3FileSystem_cls"

text \<open>\<^verbatim>\<open>cls.subclasses.get(subclass_name)\<close>: no class is stored under \<^verbatim>\<open>None\<close>.\<close>

fun registry_get :: "registry \<Rightarrow> pyval \<Rightarrow> py_class option" where
  "registry_get reg PyNone = None"
| "registry_get reg (PyStr n) = map_of reg n"

section \<open>Descriptors: \<^verbatim>\<open>to_dict\<close> and \<^verbatim>\<open>from_dict\<close>\<close>

text \<open>
  \<^verbatim>\<open>FileSystem.to_dict\<close> builds the two-entry dictionary; \<^verbatim>\<open>S3FileSystem.to_dict\<close>
  calls it and updates the result with five more entries.
\<close>

definition base_to_dict :: "file_system \<Rightarrow> pydict" where
  "base_to_dict self =
     [(''subclass_name'', PyStr (class_name (class_of self))),
      (''base_path'', base_path self)]"

fun to_dict :: "file_system \<Rightarrow> pydict" where
  "to_dict (LocalFileSystem b) = base_to_dict (LocalFileSystem b)"
| "to_dict (S3FileSystem b bk r a s e d1 d2) =
     dict_update (base_to_dict (S3FileSystem b bk r a s e d1 d2))
       [(''bucket_name'', bk),
        (''region_name'', r),
        (''access_key'', a),
        (''secret_key'', s),
        (''error_table'', e)]"

text \<open>
  \<^verbatim>\<open>subclass(**config)\<close>: Python binds the keywords to the parameters of
  \<^verbatim>\<open>__init__\<close> and raises \<^verbatim>\<open>TypeError\<close> for a keyword that names no parameter and
  for a parameter without default that gets no value. The three last parameters of
  \<^verbatim>\<open>S3FileSystem.__init__\<close> default to \<^verbatim>\<open>None\<close>.
\<close>

fun required_params :: "py_class \<Rightarrow> string list" where
  "required_params LocalFileSystem_cls = [''base_path'']"
| "required_params S3FileSystem_cls =
     [''base_path'', ''bucket_name'', ''region_name'', ''access_key'', ''secret_key'']"

fun optional_params :: "py_class \<Rightarrow> string list" where
  "optional_params LocalFileSystem_cls = []"
| "optional_params S3FileSystem_cls =
     [''error_table'', ''dynamodb_table_name'', ''dynamodb_client_data_table_name'']"

definition binds :: "py_class \<Rightarrow> pydict \<Rightarrow> bool" where
  "binds c kwargs =
     (list_all (\<lambda>k. k \<in> set (required_params c) \<or> k \<in> set (optional_params c)) (map fst kwargs) \<and>
      list_all (\<lambda>k. map_of kwargs k \<noteq> None) (required_params c))"

fun init :: "py_class \<Rightarrow> pydict \<Rightarrow> file_system" where
  "init LocalFileSystem_cls kwargs = LocalFileSystem (dict_get kwargs ''base_path'')"
| "init S3FileSystem_cls kwargs =
     S3FileSystem (dict_get kwargs ''base_path'') (dict_get kwargs ''bucket_name'')
       (dict_get kwargs ''region_name'') (dict_get kwargs ''access_key'')
       (dict_get kwargs ''secret_key'') (dict_get kwargs ''error_table'')
       (dict_get kwargs ''dynamodb_table_name'')
       (dict_get kwargs ''dynamodb_client_data_table_name'')"

definition construct :: "py_class \<Rightarrow> pydict \<Rightarrow> py_error + file_system" where
  "construct c kwargs = (if binds c kwargs then Inr (init c kwargs) else Inl TypeError)"

text \<open>
  \<^verbatim>\<open>from_dict\<close> pops \<^verbatim>\<open>subclass_name\<close> (default \<^verbatim>\<open>None\<close>), looks the class up and
  either calls it with what is left of the dictionary or raises
  \<^verbatim>\<open>ValueError(f"Unknown subclass: {subclass_name}")\<close>.
\<close>

definition from_dict :: "registry \<Rightarrow> pydict \<Rightarrow> py_error + file_system" where
  "from_dict reg config =
     (let subclass_name = dict_get config ''subclass_name'';
          config' = AList.delete ''subclass_name'' config
      in case registry_get reg subclass_name of
           Some subclass \<Rightarrow> construct subclass config'
         | None \<Rightarrow> Inl (ValueError (''Unknown subclass: '' @ py_str subclass_name)))"

section \<open>Strings and paths\<close>

text \<open>
  Strings are byte strings. \<^verbatim>\<open>s.startswith(t)\<close>, \<^verbatim>\<open>s.endswith(t)\<close>,
  \<^verbatim>\<open>s.split(c)\<close> for a one-character separator (never an empty list), and
  \<^verbatim>\<open>s.lower()\<close> on the ASCII letters.
\<close>

definition startswith :: "string \<Rightarrow> string \<Rightarrow> bool" where
  "startswith s t = (take (length t) s = t)"

definition endswith :: "string \<Rightarrow> string \<Rightarrow> bool" where
  "endswith s t = startswith (rev s) (rev t)"

fun py_split :: "char \<Rightarrow> string \<Rightarrow> string list" where
  "py_split c [] = [[]]"
| "py_split c (x # xs) =
     (if x = c then [] # py_split c xs
      else (case py_split c xs of [] \<Rightarrow> [[x]] | w # ws \<Rightarrow> (x # w) # ws))"

definition lower_char :: "char \<Rightarrow> char" where
  "lower_char c =
     (case map_of (zip ''ABCDEFGHIJKLMNOPQRSTUVWXYZ'' ''abcdefghijklmnopqrstuvwxyz'') c of
        None \<Rightarrow> c | Some l \<Rightarrow> l)"

definition py_lower :: "string \<Rightarrow> string" where
  "py_lower s = map lower_char s"

text \<open>\<^verbatim>\<open>str(i)\<close> for an integer, as the f-strings format a page number.\<close>

definition digit_char :: "nat \<Rightarrow> char" where
  "digit_char d = ''0123456789'' ! d"

function str_nat :: "nat \<Rightarrow> string" where
  "str_nat n = (if n < 10 then [digit_char n] else str_nat (n div 10) @ [digit_char (n mod 10)])"
  by pat_completeness auto
termination
  by (relation "measure id") auto

declare str_nat.simps [simp del]

definition str_int :: "int \<Rightarrow> string" where
  "str_int i = (if i < 0 then CHR ''-'' # str_nat (nat (- i)) else str_nat (nat i))"

text \<open>
  \<^verbatim>\<open>int(s)\<close> on a string: surrounding ASCII whitespace is stripped, one sign is
  allowed, and at least one decimal digit must follow; anything else raises
  \<^verbatim>\<open>ValueError\<close>. (Python also accepts single underscores between digits and
  non-ASCII digits; the strings parsed here were split at every underscore.)
\<close>

definition is_space :: "char \<Rightarrow> bool" where
  "is_space c = (c \<in> set [CHR '' '', CHR 0x09, CHR 0x0A, CHR 0x0B, CHR 0x0C, CHR 0x0D])"

definition py_strip :: "string \<Rightarrow> string" where
  "py_strip s = rev (dropWhile is_space (rev (dropWhile is_space s)))"

definition digit_val :: "char \<Rightarrow> nat option" where
  "digit_val c = map_of (zip ''0123456789'' [0, 1, 2, 3, 4, 5, 6, 7, 8, 9]) c"

fun digits_val :: "nat \<Rightarrow> string \<Rightarrow> nat option" where
  "digits_val acc [] = Some acc"
| "digits_val acc (c # cs) =
     (case digit_val c of None \<Rightarrow> None | Some d \<Rightarrow> digits_val (10 * acc + d) cs)"

definition py_int :: "string \<Rightarrow> py_error + int" where
  "py_int s =
     (let t = py_strip s;
          (neg, ds) = (case t of
                         c # r \<Rightarrow> if c = CHR ''-'' then (True, r)
                                  else if c = CHR ''+'' then (False, r) else (False, t)
                       | [] \<Rightarrow> (False, t))
      in if ds = [] then Inl (ValueError s)
         else (case digits_val 0 ds of
                 None \<Rightarrow> Inl (ValueError s)
               | Some n \<Rightarrow> Inr (if neg then - int n else int n)))"

text \<open>
  \<^verbatim>\<open>os.path.join\<close> of \<^verbatim>\<open>posixpath\<close>: a component that starts with a slash
  discards what came before it; otherwise it is appended, after a slash unless the path
  is empty or already ends with one.
\<close>

definition join2 :: "string \<Rightarrow> string \<Rightarrow> string" where
  "join2 path b =
     (if startswith b ''/'' then b
      else if path = [] \<or> endswith path ''/'' then path @ b
      else path @ ''/'' @ b)"

definition os_path_join :: "string \<Rightarrow> string list \<Rightarrow> string" where
  "os_path_join a p = foldl join2 a p"

section \<open>The local file system\<close>

text \<open>
  What a file holds is classified by what reading and parsing it yields: text that
  \<^verbatim>\<open>json.load\<close> decodes to a value, text it rejects (\<^verbatim>\<open>JSONDecodeError\<close>), or bytes
  that are no text at all (\<^verbatim>\<open>UnicodeDecodeError\<close>, which is a \<^verbatim>\<open>ValueError\<close> but no
  \<^verbatim>\<open>JSONDecodeError\<close>). Numbers are integers here; no operation of the module
  computes with them. A string value is the sequence of its code points (a Python
  \<^verbatim>\<open>str\<close>, which may hold surrogates); the keys of a dictionary, like paths and
  identifiers, are byte strings.
\<close>

datatype json =
    JNull
  | JBool bool
  | JInt int
  | JStr "nat list"
  | JList "json list"
  | JDict "(string \<times> json) list"

datatype body = Json_text json | Plain_text string | Binary string

text \<open>
  The directory tree: a regular file with its content, or a directory with its entries
  in the order \<^verbatim>\<open>os.listdir\<close> reports them. There are no symbolic links and no
  permissions, and \<^verbatim>\<open>..\<close> is a name like any other (one that no directory holds).
\<close>

datatype node = File body | Dir "(string \<times> node) list"

text \<open>
  The state the module acts on: the local tree with the working directory of the
  process, and the object store (whether it answers at all, and the objects of each
  bucket in the order a listing reports them). \<^verbatim>\<open>print\<close> is not part of the state.
\<close>

record world =
  fs_root :: node
  fs_cwd :: "string list"
  s3_available :: bool
  s3_buckets :: "string \<Rightarrow> (string \<times> body) list option"

definition segments :: "string \<Rightarrow> string list" where
  "segments p = filter (\<lambda>s. s \<noteq> [] \<and> s \<noteq> ''.'') (py_split CHR ''/'' p)"

definition resolve :: "world \<Rightarrow> string \<Rightarrow> string list" where
  "resolve w p = (if startswith p ''/'' then [] else fs_cwd w) @ segments p"

definition must_be_dir :: "string \<Rightarrow> bool" where
  "must_be_dir p = (last (py_split CHR ''/'' p) = [] \<or> last (py_split CHR ''/'' p) = ''.'')"

fun walk :: "node \<Rightarrow> string list \<Rightarrow> py_error + node" where
  "walk n [] = Inr n"
| "walk (File b) (s # ss) = Inl NotADirectoryError"
| "walk (Dir es) (s # ss) =
     (case map_of es s of None \<Rightarrow> Inl FileNotFoundError | Some c \<Rightarrow> walk c ss)"

definition stat :: "world \<Rightarrow> string \<Rightarrow> py_error + node" where
  "stat w p =
     (if p = [] then Inl FileNotFoundError
      else (case walk (fs_root w) (resolve w p) of
              Inl e \<Rightarrow> Inl e
            | Inr (File b) \<Rightarrow> if must_be_dir p then Inl NotADirectoryError else Inr (File b)
            | Inr (Dir es) \<Rightarrow> Inr (Dir es)))"

text \<open>\<open>update_at\<close> sets (\<open>Some\<close>) or removes (\<open>None\<close>) the entry a path names.\<close>

fun update_at :: "string list \<Rightarrow> node option \<Rightarrow> node \<Rightarrow> node" where
  "update_at [] v n = n"
| "update_at (s # ss) v (File b) = File b"
| "update_at [s] v (Dir es) =
     Dir (case v of None \<Rightarrow> AList.delete s es | Some c \<Rightarrow> AList.update s c es)"
| "update_at (s # t # ss) v (Dir es) =
     (case map_of es s of
        None \<Rightarrow> Dir es
      | Some c \<Rightarrow> Dir (AList.update s (update_at (t # ss) v c) es))"

definition os_path_exists :: "world \<Rightarrow> string \<Rightarrow> bool" where
  "os_path_exists w p = (case stat w p of Inl e \<Rightarrow> False | Inr n \<Rightarrow> True)"

definition os_path_isdir :: "world \<Rightarrow> string \<Rightarrow> bool" where
  "os_path_isdir w p = (case stat w p of Inr (Dir es) \<Rightarrow> True | _ \<Rightarrow> False)"

definition os_listdir :: "world \<Rightarrow> string \<Rightarrow> py_error + string list" where
  "os_listdir w p =
     (case stat w p of
        Inl e \<Rightarrow> Inl e
      | Inr (File b) \<Rightarrow> Inl NotADirectoryError
      | Inr (Dir es) \<Rightarrow> Inr (map fst es))"

definition os_remove :: "world \<Rightarrow> string \<Rightarrow> py_error + world" where
  "os_remove w p =
     (case stat w p of
        Inl e \<Rightarrow> Inl e
      | Inr (Dir es) \<Rightarrow> Inl IsADirectoryError
      | Inr (File b) \<Rightarrow> Inr (w\<lparr>fs_root := update_at (resolve w p) None (fs_root w)\<rparr>))"

definition os_rmdir :: "world \<Rightarrow> string \<Rightarrow> py_error + world" where
  "os_rmdir w p =
     (case stat w p of
        Inl e \<Rightarrow> Inl e
      | Inr (File b) \<Rightarrow> Inl NotADirectoryError
      | Inr (Dir es) \<Rightarrow>
          if es \<noteq> [] \<or> resolve w p = [] then Inl OSError
          else Inr (w\<lparr>fs_root := update_at (resolve w p) None (fs_root w)\<rparr>))"

text \<open>\<^verbatim>\<open>os.makedirs\<close>: the missing directories of the path are created, outermost first.\<close>

fun fresh_dirs :: "string list \<Rightarrow> node" where
  "fresh_dirs [] = Dir []"
| "fresh_dirs (s # ss) = Dir [(s, fresh_dirs ss)]"

fun mkdirs :: "string list \<Rightarrow> node \<Rightarrow> py_error + node" where
  "mkdirs [] n = Inl FileExistsError"
| "mkdirs (s # ss) (File b) = Inl NotADirectoryError"
| "mkdirs (s # ss) (Dir es) =
     (case map_of es s of
        None \<Rightarrow> Inr (Dir (AList.update s (fresh_dirs ss) es))
      | Some c \<Rightarrow>
          (case mkdirs ss c of
             Inl e \<Rightarrow> Inl e
           | Inr c' \<Rightarrow> Inr (Dir (AList.update s c' es))))"

definition os_makedirs :: "world \<Rightarrow> string \<Rightarrow> bool \<Rightarrow> py_error + world" where
  "os_makedirs w p exist_ok =
     (if p = [] then Inl FileNotFoundError
      else (case mkdirs (resolve w p) (fs_root w) of
              Inr r \<Rightarrow> Inr (w\<lparr>fs_root := r\<rparr>)
            | Inl e \<Rightarrow>
                if e = FileExistsError \<and> exist_ok \<and> os_path_isdir w p then Inr w else Inl e))"

text \<open>
  \<^verbatim>\<open>open(p, 'w')\<close> followed by writing the whole content, and \<^verbatim>\<open>open(p, 'r')\<close>
  followed by reading it.
\<close>

definition write_file :: "world \<Rightarrow> string \<Rightarrow> body \<Rightarrow> py_error + world" where
  "write_file w p b =
     (if p = [] then Inl FileNotFoundError
      else if resolve w p = [] \<or> must_be_dir p then Inl IsADirectoryError
      else (case walk (fs_root w) (butlast (resolve w p)) of
              Inl e \<Rightarrow> Inl e
            | Inr (File c) \<Rightarrow> Inl NotADirectoryError
            | Inr (Dir es) \<Rightarrow>
                (case map_of es (last (resolve w p)) of
                   Some (Dir ds) \<Rightarrow> Inl IsADirectoryError
                 | _ \<Rightarrow> Inr (w\<lparr>fs_root := update_at (resolve w p) (Some (File b)) (fs_root w)\<rparr>))))"

definition read_file :: "world \<Rightarrow> string \<Rightarrow> py_error + body" where
  "read_file w p =
     (case stat w p of
        Inl e \<Rightarrow> Inl e
      | Inr (Dir es) \<Rightarrow> Inl IsADirectoryError
      | Inr (File b) \<Rightarrow> Inr b)"

text \<open>\<^verbatim>\<open>json.load\<close> / \<^verbatim>\<open>json.loads\<close> of a content, and \<^verbatim>\<open>data[key]\<close> on the result.\<close>

fun json_load :: "body \<Rightarrow> py_error + json" where
  "json_load (Json_text j) = Inr j"
| "json_load (Plain_text t) = Inl JSONDecodeError"
| "json_load (Binary t) = Inl UnicodeDecodeError"

fun subscript :: "json \<Rightarrow> string \<Rightarrow> py_error + json" where
  "subscript (JDict kvs) k = (case map_of kvs k of None \<Rightarrow> Inl (KeyError k) | Some v \<Rightarrow> Inr v)"
| "subscript j k = Inl TypeError"

text \<open>
  \<^verbatim>\<open>json.dump\<close> / \<^verbatim>\<open>json.dumps\<close> with the default \<^verbatim>\<open>ensure_ascii\<close>: every code point
  outside ASCII is written as a \<^verbatim>\<open>\uXXXX\<close> escape, one above \<^verbatim>\<open>0xFFFF\<close> as the two
  escapes of its surrogate pair, and a surrogate of the string as its own escape. The
  decoder turns an escaped high surrogate that is followed by an escaped low surrogate
  into the one code point of the pair, so the text written for a string decodes to the
  string with its adjacent surrogate pairs merged, from left to right.
\<close>

definition high_surrogate :: "nat \<Rightarrow> bool" where
  "high_surrogate c = (0xD800 \<le> c \<and> c \<le> 0xDBFF)"

definition low_surrogate :: "nat \<Rightarrow> bool" where
  "low_surrogate c = (0xDC00 \<le> c \<and> c \<le> 0xDFFF)"

fun merge_surrogates :: "nat list \<Rightarrow> nat list" where
  "merge_surrogates (h # l # cs) =
     (if high_surrogate h \<and> low_surrogate l
      then (0x10000 + (h - 0xD800) * 0x400 + (l - 0xDC00)) # merge_surrogates cs
      else h # merge_surrogates (l # cs))"
| "merge_surrogates cs = cs"

fun json_reload :: "json \<Rightarrow> json" where
  "json_reload (JStr s) = JStr (merge_surrogates s)"
| "json_reload (JList vs) = JList (map json_reload vs)"
| "json_reload (JDict kvs) = JDict (map (\<lambda>kv. (fst kv, json_reload (snd kv))) kvs)"
| "json_reload v = v"

definition json_dump :: "json \<Rightarrow> body" where
  "json_dump v = Json_text (json_reload v)"

section \<open>The object store\<close>

text \<open>
  The calls of the \<^verbatim>\<open>boto3\<close> client the module uses. Each raises when the service
  does not answer or the bucket does not exist. \<^verbatim>\<open>list_objects_v2\<close> is called
  without \<^verbatim>\<open>MaxKeys\<close> and without a continuation token, so it reports at most the
  first \<open>max_keys\<close> keys under the prefix, and a response for no key has no
  \<^verbatim>\<open>Contents\<close> entry (\<open>None\<close>). \<^verbatim>\<open>create_s3_client\<close> only stores the region and the
  credentials; access control is not modelled, so the calls take the bucket alone.
\<close>

definition max_keys :: nat where
  "max_keys = 1000"

definition bucket_objects :: "world \<Rightarrow> string \<Rightarrow> py_error + (string \<times> body) list" where
  "bucket_objects w bucket =
     (if \<not> s3_available w then Inl ClientError
      else (case s3_buckets w bucket of None \<Rightarrow> Inl ClientError | Some objs \<Rightarrow> Inr objs))"

definition list_objects_v2 :: "world \<Rightarrow> string \<Rightarrow> string \<Rightarrow> py_error + string list option" where
  "list_objects_v2 w bucket prefix =
     (case bucket_objects w bucket of
        Inl e \<Rightarrow> Inl e
      | Inr objs \<Rightarrow>
          (let keys = take max_keys (filter (\<lambda>k. startswith k prefix) (map fst objs))
           in Inr (if keys = [] then None else Some keys)))"

definition delete_objects :: "world \<Rightarrow> string \<Rightarrow> string list \<Rightarrow> py_error + world" where
  "delete_objects w bucket keys =
     (case bucket_objects w bucket of
        Inl e \<Rightarrow> Inl e
      | Inr objs \<Rightarrow>
          Inr (w\<lparr>s3_buckets := (s3_buckets w)(bucket \<mapsto> filter (\<lambda>kv. fst kv \<notin> set keys) objs)\<rparr>))"

definition put_object :: "world \<Rightarrow> string \<Rightarrow> string \<Rightarrow> body \<Rightarrow> py_error + world" where
  "put_object w bucket key b =
     (case bucket_objects w bucket of
        Inl e \<Rightarrow> Inl e
      | Inr objs \<Rightarrow> Inr (w\<lparr>s3_buckets := (s3_buckets w)(bucket \<mapsto> AList.update key b objs)\<rparr>))"

definition get_object :: "world \<Rightarrow> string \<Rightarrow> string \<Rightarrow> py_error + body" where
  "get_object w bucket key =
     (case bucket_objects w bucket of
        Inl e \<Rightarrow> Inl e
      | Inr objs \<Rightarrow> (case map_of objs key of None \<Rightarrow> Inl NoSuchKey | Some b \<Rightarrow> Inr b))"

definition download_file :: "world \<Rightarrow> string \<Rightarrow> string \<Rightarrow> string \<Rightarrow> py_error + world" where
  "download_file w bucket key filename =
     (case bucket_objects w bucket of
        Inl e \<Rightarrow> Inl e
      | Inr objs \<Rightarrow>
          (case map_of objs key of
             None \<Rightarrow> Inl ClientError
           | Some b \<Rightarrow> write_file w filename b))"

section \<open>\<^verbatim>\<open>LocalFileSystem\<close>\<close>






text \<open>
  \<^verbatim>\<open>get_files\<close>: the inner loop over the extensions breaks at the first path that
  exists; the outer loop over \<^verbatim>\<open>range(page_start, page_end + 1)\<close> appends it.
\<close>

definition extensions :: "string list" where
  "extensions = [''.jpg'', ''.jpeg'', ''.png'']"

definition page_file :: "int \<Rightarrow> string \<Rightarrow> string" where
  "page_file i ext = ''page_'' @ str_int i @ ext"

fun local_first_ext :: "world \<Rightarrow> string \<Rightarrow> int \<Rightarrow> string list \<Rightarrow> string option" where
  "local_first_ext w page_images_path i [] = None"
| "local_first_ext w page_images_path i (ext # exts) =
     (let image_file_path = os_path_join page_images_path [page_file i ext]
      in if os_path_exists w image_file_path then Some image_file_path
         else local_first_ext w page_images_path i exts)"

fun local_pages_loop :: "world \<Rightarrow> string \<Rightarrow> int list \<Rightarrow> string list \<Rightarrow> string list" where
  "local_pages_loop w page_images_path [] image_file_paths = image_file_paths"
| "local_pages_loop w page_images_path (i # is) image_file_paths =
     local_pages_loop w page_images_path is
       (case local_first_ext w page_images_path i extensions of
          None \<Rightarrow> image_file_paths
        | Some image_file_path \<Rightarrow> image_file_paths @ [image_file_path])"

definition local_get_files ::
  "string \<Rightarrow> string \<Rightarrow> string \<Rightarrow> int option \<Rightarrow> int option \<Rightarrow> world \<Rightarrow> py_error + string list" where
  "local_get_files base kb_id doc_id page_start page_end w =
     (case (page_start, page_end) of
        (Some ps, Some pe) \<Rightarrow>
          Inr (local_pages_loop w (os_path_join base [kb_id, doc_id]) [ps..pe] [])
      | _ \<Rightarrow> Inr [])"

text \<open>
  \<^verbatim>\<open>get_all_jpg_files\<close>. The key of the sort is
  \<^verbatim>\<open>int(x.split('_')[-1].split('.')[0])\<close> on the whole path; \<^verbatim>\<open>list.sort\<close> computes
  every key before it moves anything and is stable.
\<close>

definition page_number_key :: "string \<Rightarrow> py_error + int" where
  "page_number_key x = py_int (hd (py_split CHR ''.'' (last (py_split CHR ''_'' x))))"

fun page_numbers :: "string list \<Rightarrow> py_error + int list" where
  "page_numbers [] = Inr []"
| "page_numbers (x # xs) =
     (case page_number_key x of
        Inl e \<Rightarrow> Inl e
      | Inr n \<Rightarrow> (case page_numbers xs of Inl e \<Rightarrow> Inl e | Inr ns \<Rightarrow> Inr (n # ns)))"

definition sort_by_page_number :: "string list \<Rightarrow> py_error + string list" where
  "sort_by_page_number xs =
     (case page_numbers xs of
        Inl e \<Rightarrow> Inl e
      | Inr ns \<Rightarrow> Inr (map snd (sort_key fst (zip ns xs))))"

definition local_is_image :: "string \<Rightarrow> bool" where
  "local_is_image file = (endswith file ''.jpg'' \<or> endswith file ''.jpeg'' \<or> endswith file ''.png'')"

definition local_get_all_jpg_files ::
  "string \<Rightarrow> string \<Rightarrow> string \<Rightarrow> world \<Rightarrow> py_error + string list" where
  "local_get_all_jpg_files base kb_id doc_id w =
     (let page_images_path = os_path_join base [kb_id, doc_id]
      in case os_listdir w page_images_path of
           Inl e \<Rightarrow> Inl e
         | Inr files \<Rightarrow>
             sort_by_page_number
               (map (\<lambda>file. os_path_join page_images_path [file]) (filter local_is_image files)))"

text \<open>Page contents and named data.\<close>

definition page_content_file :: "int \<Rightarrow> string" where
  "page_content_file page_number = ''page_content_'' @ str_int page_number @ ''.json''"

definition local_save_page_content ::
  "string \<Rightarrow> string \<Rightarrow> string \<Rightarrow> int \<Rightarrow> nat list \<Rightarrow> world \<Rightarrow> py_error + world" where
  "local_save_page_content base kb_id doc_id page_number content w =
     write_file w (os_path_join base [kb_id, doc_id, page_content_file page_number])
       (json_dump (JDict [(''content'', JStr content)]))"

text \<open>The result is a JSON value; \<open>JNull\<close> is \<^verbatim>\<open>None\<close>.\<close>

definition local_load_page_content ::
  "string \<Rightarrow> string \<Rightarrow> string \<Rightarrow> int \<Rightarrow> world \<Rightarrow> py_error + json" where
  "local_load_page_content base kb_id doc_id page_number w =
     (let page_content_path = os_path_join base [kb_id, doc_id, page_content_file page_number];
          attempt = (case read_file w page_content_path of
                       Inl e \<Rightarrow> Inl e
                     | Inr b \<Rightarrow>
                         (case json_load b of
                            Inl e \<Rightarrow> Inl e
                          | Inr data \<Rightarrow> subscript data ''content''))
      in case attempt of
           Inl e \<Rightarrow> if e = FileNotFoundError then Inr JNull else Inl e
         | Inr content \<Rightarrow> Inr content)"

fun local_contents_loop ::
  "string \<Rightarrow> string \<Rightarrow> string \<Rightarrow> world \<Rightarrow> int list \<Rightarrow> json list \<Rightarrow> py_error + json list" where
  "local_contents_loop base kb_id doc_id w [] page_contents = Inr page_contents"
| "local_contents_loop base kb_id doc_id w (page_num # page_nums) page_contents =
     (case local_load_page_content base kb_id doc_id page_num w of
        Inl e \<Rightarrow> Inl e
      | Inr content \<Rightarrow>
          local_contents_loop base kb_id doc_id w page_nums
            (if content \<noteq> JNull then page_contents @ [content] else page_contents))"

definition local_load_page_content_range ::
  "string \<Rightarrow> string \<Rightarrow> string \<Rightarrow> int \<Rightarrow> int \<Rightarrow> world \<Rightarrow> py_error + json list" where
  "local_load_page_content_range base kb_id doc_id page_start page_end w =
     local_contents_loop base kb_id doc_id w [page_start..page_end] []"

definition local_load_data ::
  "string \<Rightarrow> string \<Rightarrow> string \<Rightarrow> string \<Rightarrow> world \<Rightarrow> py_error + json" where
  "local_load_data base kb_id doc_id data_name w =
     (let file_path = os_path_join base [kb_id, doc_id, data_name @ ''.json''];
          attempt = (case read_file w file_path of
                       Inl e \<Rightarrow> Inl e
                     | Inr b \<Rightarrow> json_load b)
      in case attempt of
           Inl e \<Rightarrow>
             if e = FileNotFoundError then Inr JNull
             else if e = JSONDecodeError then Inr JNull
             else Inl e
         | Inr data \<Rightarrow> Inr data)"

section \<open>\<^verbatim>\<open>S3FileSystem\<close>\<close>



text \<open>
  \<^verbatim>\<open>get_files\<close>: for every extension tried, the mirror folder is created when it does
  not exist (only \<^verbatim>\<open>FileExistsError\<close> is swallowed there), then the object is
  downloaded; any exception of the download moves on to the next extension.
\<close>

fun s3_first_ext ::
  "string \<Rightarrow> string \<Rightarrow> string \<Rightarrow> string \<Rightarrow> int \<Rightarrow> string list \<Rightarrow> world \<Rightarrow>
     py_error + (string option \<times> world)" where
  "s3_first_ext base bucket kb_id doc_id i [] w = Inr (None, w)"
| "s3_first_ext base bucket kb_id doc_id i (ext # exts) w =
     (let filename = kb_id @ ''/'' @ doc_id @ ''/'' @ page_file i ext;
          output_folder = os_path_join base [kb_id, doc_id];
          made = (if \<not> os_path_exists w output_folder
                  then (case os_makedirs w output_folder False of
                          Inl e \<Rightarrow> if e = FileExistsError then Inr w else Inl e
                        | Inr w1 \<Rightarrow> Inr w1)
                  else Inr w)
      in case made of
           Inl e \<Rightarrow> Inl e
         | Inr w1 \<Rightarrow>
             (let output_filepath = os_path_join base [filename]
              in case download_file w1 bucket filename output_filepath of
                   Inr w2 \<Rightarrow> Inr (Some output_filepath, w2)
                 | Inl e \<Rightarrow> s3_first_ext base bucket kb_id doc_id i exts w1))"

fun s3_pages_loop ::
  "string \<Rightarrow> string \<Rightarrow> string \<Rightarrow> string \<Rightarrow> int list \<Rightarrow> string list \<Rightarrow> world \<Rightarrow>
     py_error + (string list \<times> world)" where
  "s3_pages_loop base bucket kb_id doc_id [] file_paths w = Inr (file_paths, w)"
| "s3_pages_loop base bucket kb_id doc_id (i # is) file_paths w =
     (case s3_first_ext base bucket kb_id doc_id i extensions w of
        Inl e \<Rightarrow> Inl e
      | Inr (found, w') \<Rightarrow>
          s3_pages_loop base bucket kb_id doc_id is
            (case found of None \<Rightarrow> file_paths | Some p \<Rightarrow> file_paths @ [p]) w')"

definition s3_get_files ::
  "string \<Rightarrow> string \<Rightarrow> string \<Rightarrow> string \<Rightarrow> int option \<Rightarrow> int option \<Rightarrow> world \<Rightarrow>
     py_error + (string list \<times> world)" where
  "s3_get_files base bucket kb_id doc_id page_start page_end w =
     (case (page_start, page_end) of
        (Some ps, Some pe) \<Rightarrow> s3_pages_loop base bucket kb_id doc_id [ps..pe] [] w
      | _ \<Rightarrow> Inr ([], w))"

text \<open>
  \<^verbatim>\<open>get_all_jpg_files\<close>: the whole body stands in \<^verbatim>\<open>try ... except Exception\<close>, which
  returns the empty list; a failed download is skipped.
\<close>

definition s3_is_image :: "string \<Rightarrow> bool" where
  "s3_is_image key =
     (endswith (py_lower key) ''.jpg'' \<or> endswith (py_lower key) ''.jpeg'' \<or>
      endswith (py_lower key) ''.png'')"

fun s3_download_each ::
  "string \<Rightarrow> string \<Rightarrow> string list \<Rightarrow> string list \<Rightarrow> world \<Rightarrow> string list \<times> world" where
  "s3_download_each base bucket [] local_file_paths w = (local_file_paths, w)"
| "s3_download_each base bucket (s3_key # s3_keys) local_file_paths w =
     (let local_path = os_path_join base [s3_key]
      in case download_file w bucket s3_key local_path of
           Inr w' \<Rightarrow> s3_download_each base bucket s3_keys (local_file_paths @ [local_path]) w'
         | Inl e \<Rightarrow> s3_download_each base bucket s3_keys local_file_paths w)"

definition s3_get_all_jpg_files ::
  "string \<Rightarrow> string \<Rightarrow> string \<Rightarrow> string \<Rightarrow> world \<Rightarrow> py_error + (string list \<times> world)" where
  "s3_get_all_jpg_files base bucket kb_id doc_id w =
     (let prefix = kb_id @ ''/'' @ doc_id @ ''/''
      in case list_objects_v2 w bucket prefix of
           Inl e \<Rightarrow> Inr ([], w)
         | Inr None \<Rightarrow> Inr ([], w)
         | Inr (Some keys) \<Rightarrow>
             (let jpg_files = filter s3_is_image keys;
                  output_folder = os_path_join base [kb_id, doc_id]
              in case os_makedirs w output_folder True of
                   Inl e \<Rightarrow> Inr ([], w)
                 | Inr w1 \<Rightarrow>
                     (case s3_download_each base bucket jpg_files [] w1 of
                        (local_file_paths, w2) \<Rightarrow>
                          (case sort_by_page_number local_file_paths of
                             Inl e \<Rightarrow> Inr ([], w2)
                           | Inr sorted_paths \<Rightarrow> Inr (sorted_paths, w2)))))"

definition s3_save_page_content ::
  "string \<Rightarrow> string \<Rightarrow> string \<Rightarrow> int \<Rightarrow> nat list \<Rightarrow> world \<Rightarrow> py_error + world" where
  "s3_save_page_content bucket kb_id doc_id page_number content w =
     (let file_name = kb_id @ ''/'' @ doc_id @ ''/'' @ page_content_file page_number;
          data = json_dump (JDict [(''content'', JStr content)])
      in case put_object w bucket file_name data of
           Inl e \<Rightarrow> Inl (RuntimeError ''Failed to upload page content to S3.'')
         | Inr w' \<Rightarrow> Inr w')"

definition s3_load_page_content ::
  "string \<Rightarrow> string \<Rightarrow> string \<Rightarrow> int \<Rightarrow> world \<Rightarrow> py_error + json" where
  "s3_load_page_content bucket kb_id doc_id page_number w =
     (let file_name = kb_id @ ''/'' @ doc_id @ ''/'' @ page_content_file page_number;
          attempt = (case get_object w bucket file_name of
                       Inl e \<Rightarrow> Inl e
                     | Inr b \<Rightarrow>
                         (case json_load b of
                            Inl e \<Rightarrow> Inl e
                          | Inr data \<Rightarrow> subscript data ''content''))
      in case attempt of
           Inl e \<Rightarrow> if e = NoSuchKey then Inr JNull else Inr JNull
         | Inr content \<Rightarrow> Inr content)"

fun s3_contents_loop ::
  "string \<Rightarrow> string \<Rightarrow> string \<Rightarrow> world \<Rightarrow> int list \<Rightarrow> json list \<Rightarrow> py_error + json list" where
  "s3_contents_loop bucket kb_id doc_id w [] page_contents = Inr page_contents"
| "s3_contents_loop bucket kb_id doc_id w (page_num # page_nums) page_contents =
     (case s3_load_page_content bucket kb_id doc_id page_num w of
        Inl e \<Rightarrow> Inl e
      | Inr content \<Rightarrow>
          s3_contents_loop bucket kb_id doc_id w page_nums
            (if content \<noteq> JNull then page_contents @ [content] else page_contents))"

definition s3_load_page_content_range ::
  "string \<Rightarrow> string \<Rightarrow> string \<Rightarrow> int \<Rightarrow> int \<Rightarrow> world \<Rightarrow> py_error + json list" where
  "s3_load_page_content_range bucket kb_id doc_id page_start page_end w =
     s3_contents_loop bucket kb_id doc_id w [page_start..page_end] []"

definition s3_load_data ::
  "string \<Rightarrow> string \<Rightarrow> string \<Rightarrow> string \<Rightarrow> world \<Rightarrow> py_error + json" where
  "s3_load_data bucket kb_id doc_id data_name w =
     (let s3_key = kb_id @ ''/'' @ doc_id @ ''/'' @ data_name @ ''.json'';
          attempt = (case get_object w bucket s3_key of
                       Inl e \<Rightarrow> Inl e
                     | Inr b \<Rightarrow> json_load b)
      in case attempt of
           Inl e \<Rightarrow>
             if e = NoSuchKey then Inr JNull
             else if e = JSONDecodeError then Inr JNull
             else Inr JNull
         | Inr data \<Rightarrow> Inr data)"

section \<open>Names and example states\<close>

text \<open>
  A name a directory entry can have: not empty, without a slash, and neither \<^verbatim>\<open>.\<close> nor
  \<^verbatim>\<open>..\<close>. The specification asks the same of \<^verbatim>\<open>kb_id\<close> and \<^verbatim>\<open>doc_id\<close> where they
  are used as path segments.
\<close>

definition valid_name :: "string \<Rightarrow> bool" where
  "valid_name n = (n \<noteq> [] \<and> CHR ''/'' \<notin> set n \<and> n \<noteq> ''.'' \<and> n \<noteq> ''..'')"

text \<open>
  The code points of an ASCII string, and a string in which no high surrogate is
  immediately followed by a low surrogate.
\<close>

definition ascii :: "string \<Rightarrow> nat list" where
  "ascii s = map of_char s"

fun no_surrogate_pair :: "nat list \<Rightarrow> bool" where
  "no_surrogate_pair (h # l # cs) =
     (\<not> (high_surrogate h \<and> low_surrogate l) \<and> no_surrogate_pair (l # cs))"
| "no_surrogate_pair cs = True"

text \<open>
  \<open>blocked_world\<close>: \<^verbatim>\<open>/data/kb/doc\<close> and \<^verbatim>\<open>/cache\<close> are regular files, and the
  bucket holds the image of page 1.
\<close>

definition blocked_world :: world where
  "blocked_world =
     \<lparr>fs_root = Dir [(''data'', Dir [(''kb'', Dir [(''doc'', File (Plain_text ''x''))])]),
                     (''cache'', File (Plain_text ''x''))],
      fs_cwd = [],
      s3_available = True,
      s3_buckets = (\<lambda>b. if b = ''bucket''
                         then Some [(''kb/doc/page_1.jpg'', Binary ''J1'')]
                         else None)\<rparr>"

text \<open>
  \<open>doc_world\<close>: the folder \<^verbatim>\<open>/data/kb/doc\<close> exists and is empty, and so is the bucket.
  \<open>broken_world\<close>: the page-content file of page 1 holds text that is no JSON, locally
  and in the bucket.
\<close>

definition doc_world :: world where
  "doc_world =
     \<lparr>fs_root = Dir [(''data'', Dir [(''kb'', Dir [(''doc'', Dir [])])])],
      fs_cwd = [],
      s3_available = True,
      s3_buckets = (\<lambda>b. if b = ''bucket'' then Some [] else None)\<rparr>"

definition broken_world :: world where
  "broken_world =
     \<lparr>fs_root = Dir [(''data'', Dir [(''kb'', Dir [(''doc'',
          Dir [(''page_content_1.json'', File (Plain_text ''{''))])])])],
      fs_cwd = [],
      s3_available = True,
      s3_buckets = (\<lambda>b. if b = ''bucket''
                         then Some [(''kb/doc/page_content_1.json'', Plain_text ''{'')]
                         else None)\<rparr>"

text \<open>
  The rule of the specification for one page: the first of \<^verbatim>\<open>.jpg\<close>, \<^verbatim>\<open>.jpeg\<close>,
  \<^verbatim>\<open>.png\<close> that is found gives the one path of the page, and a page with none gives
  nothing. A page contributes at most one path.
\<close>

definition first_match :: "(string \<Rightarrow> bool) \<Rightarrow> (string \<Rightarrow> string) \<Rightarrow> string list" where
  "first_match found path =
     (if found ''.jpg'' then [path ''.jpg'']
      else if found ''.jpeg'' then [path ''.jpeg'']
      else if found ''.png'' then [path ''.png'']
      else [])"

text \<open>An object the store can deliver: the service answers, the bucket exists and holds the key.\<close>

definition s3_has :: "world \<Rightarrow> string \<Rightarrow> string \<Rightarrow> bool" where
  "s3_has w bucket key =
     (case bucket_objects w bucket of Inl e \<Rightarrow> False | Inr objs \<Rightarrow> map_of objs key \<noteq> None)"

fun is_file :: "node \<Rightarrow> bool" where
  "is_file (File b) = True"
| "is_file (Dir es) = False"

text \<open>
  The local mirror folder of a document can take downloads: it is a directory that holds
  regular files only, or it does not exist and \<^verbatim>\<open>os.makedirs\<close> can create it.
\<close>

definition mirror_ready :: "world \<Rightarrow> string \<Rightarrow> bool" where
  "mirror_ready w folder =
     (case stat w folder of
        Inr (Dir es) \<Rightarrow> list_all (\<lambda>e. is_file (snd e)) es
      | Inr (File b) \<Rightarrow> False
      | Inl e \<Rightarrow> (case os_makedirs w folder False of Inl e' \<Rightarrow> False | Inr w' \<Rightarrow> True))"

text \<open>Two states that differ in the file tree at most, and a mirror folder that exists.\<close>

definition same_env :: "world \<Rightarrow> world \<Rightarrow> bool" where
  "same_env w' w = (fs_cwd w' = fs_cwd w \<and> s3_available w' = s3_available w \<and>
     s3_buckets w' = s3_buckets w)"

definition mirror_dir :: "world \<Rightarrow> string list \<Rightarrow> bool" where
  "mirror_dir w D = (\<exists>es. walk (fs_root w) D = Inr (Dir es) \<and> list_all (\<lambda>e. is_file (snd e)) es)"

text \<open>
  \<open>pages_world\<close>: pages 1, 2 and 4 have images (page 2 both as \<^verbatim>\<open>.jpg\<close> and
  \<^verbatim>\<open>.png\<close>), page 3 has none, locally under \<^verbatim>\<open>/data/kb/doc\<close> and in the bucket; the
  mirror root \<^verbatim>\<open>/cache\<close> is empty.
\<close>

definition pages_world :: world where
  "pages_world =
     \<lparr>fs_root = Dir [(''data'', Dir [(''kb'', Dir [(''doc'',
          Dir [(''page_1.png'', File (Binary ''P1'')),
               (''page_2.jpg'', File (Binary ''J2'')),
               (''page_2.png'', File (Binary ''P2'')),
               (''page_4.jpeg'', File (Binary ''J4''))])])]),
                  (''cache'', Dir [])],
      fs_cwd = [],
      s3_available = True,
      s3_buckets = (\<lambda>b. if b = ''bucket''
                         then Some [(''kb/doc/page_1.png'', Binary ''P1''),
                                    (''kb/doc/page_2.jpg'', Binary ''J2''),
                                    (''kb/doc/page_2.png'', Binary ''P2''),
                                    (''kb/doc/page_4.jpeg'', Binary ''J4'')]
                         else None)\<rparr>"










section \<open>Properties of the descriptors\<close>

lemma subclasses_eq:
  "subclasses = [(''LocalFileSystem'', LocalFileSystem_cls), (''S3FileSystem'', S3FileSystem_cls)]"
  by (simp add: subclasses_def init_subclass_def)


lemma to_dict_s3:
  "to_dict (S3FileSystem b bk r a s e d1 d2) =
     [(''subclass_name'', PyStr ''S3FileSystem''), (''base_path'', b), (''bucket_name'', bk),
      (''region_name'', r), (''access_key'', a), (''secret_key'', s), (''error_table'', e)]"
  by (simp add: base_to_dict_def)

lemma to_dict_local:
  "to_dict (LocalFileSystem b) = [(''subclass_name'', PyStr ''LocalFileSystem''), (''base_path'', b)]"
  by (simp add: base_to_dict_def)

lemma from_dict_to_dict_s3:
  "from_dict subclasses (to_dict (S3FileSystem b bk r a s e d1 d2)) =
     Inr (S3FileSystem b bk r a s e PyNone PyNone)"
  unfolding to_dict_s3
  by (simp add: from_dict_def subclasses_eq dict_get_def construct_def binds_def)

lemma from_dict_to_dict_local:
  "from_dict subclasses (to_dict (LocalFileSystem b)) = Inr (LocalFileSystem b)"
  unfolding to_dict_local
  by (simp add: from_dict_def subclasses_eq dict_get_def construct_def binds_def)



text \<open>
  Claim C10. The descriptor of an \<^verbatim>\<open>S3FileSystem\<close> has exactly the seven fields
  \<^verbatim>\<open>subclass_name\<close>, \<^verbatim>\<open>base_path\<close>, \<^verbatim>\<open>bucket_name\<close>, \<^verbatim>\<open>region_name\<close>,
  \<^verbatim>\<open>access_key\<close>, \<^verbatim>\<open>secret_key\<close>, \<^verbatim>\<open>error_table\<close>; the two DynamoDB table names are
  not in it, and the instance rebuilt from it has both set to \<^verbatim>\<open>None\<close> whatever the
  original held.
\<close>

theorem s3_descriptor_drops_dynamodb_names:
  "to_dict (S3FileSystem b bk r a s e d1 d2) =
     [(''subclass_name'', PyStr ''S3FileSystem''), (''base_path'', b), (''bucket_name'', bk),
      (''region_name'', r), (''access_key'', a), (''secret_key'', s), (''error_table'', e)]
   \<and> map_of (to_dict (S3FileSystem b bk r a s e d1 d2)) ''dynamodb_table_name'' = None
   \<and> map_of (to_dict (S3FileSystem b bk r a s e d1 d2)) ''dynamodb_client_data_table_name'' = None
   \<and> (\<exists>self'. from_dict subclasses (to_dict (S3FileSystem b bk r a s e d1 d2)) = Inr self'
        \<and> dynamodb_table_name self' = PyNone
        \<and> dynamodb_client_data_table_name self' = PyNone)"
proof (intro conjI)
  show "\<exists>self'. from_dict subclasses (to_dict (S3FileSystem b bk r a s e d1 d2)) = Inr self'
        \<and> dynamodb_table_name self' = PyNone
        \<and> dynamodb_client_data_table_name self' = PyNone"
    by (rule exI [of _ "S3FileSystem b bk r a s e PyNone PyNone"])
       (simp add: from_dict_to_dict_s3 del: to_dict.simps)
qed (simp_all add: to_dict_s3 del: to_dict.simps)

text \<open>
  Claim C7. For every instance of either class, \<^verbatim>\<open>from_dict\<close> of its \<^verbatim>\<open>to_dict\<close>
  succeeds and gives an instance of the same class with the same \<^verbatim>\<open>base_path\<close> and,
  for \<^verbatim>\<open>S3FileSystem\<close>, the same bucket, region, credentials and error table: the
  attributes every read and write of the instance addresses its storage with.
\<close>

theorem from_dict_to_dict_same_location:
  "\<exists>self'. from_dict subclasses (to_dict self) = Inr self'
     \<and> class_of self' = class_of self
     \<and> base_path self' = base_path self
     \<and> bucket_name self' = bucket_name self
     \<and> region_name self' = region_name self
     \<and> access_key self' = access_key self
     \<and> secret_key self' = secret_key self
     \<and> error_table self' = error_table self"
proof (cases self)
  case (LocalFileSystem b)
  then show ?thesis
    by (intro exI [of _ "LocalFileSystem b"]) (simp add: from_dict_to_dict_local del: to_dict.simps)
next
  case (S3FileSystem b bk r a s e d1 d2)
  then show ?thesis
    by (intro exI [of _ "S3FileSystem b bk r a s e PyNone PyNone"])
       (simp add: from_dict_to_dict_s3 del: to_dict.simps)
qed

section \<open>Paths and the file tree\<close>

lemma py_split_ne [simp]: "py_split c xs \<noteq> []"
  by (induction xs) (auto split: list.splits)

lemma py_split_no_sep: "c \<notin> set xs \<Longrightarrow> py_split c xs = [xs]"
  by (induction xs) auto

lemma py_split_append_sep: "py_split c (xs @ c # ys) = py_split c xs @ py_split c ys"
  by (induction xs) (auto split: list.splits)

lemma startswith_slash: "startswith p ''/'' = (\<exists>r. p = CHR ''/'' # r)"
  by (cases p) (auto simp: startswith_def)

lemma endswith_slash: "endswith p ''/'' = (\<exists>r. p = r @ ''/'')"
proof -
  have "endswith p ''/'' = (\<exists>r. rev p = CHR ''/'' # r)"
    by (cases "rev p") (auto simp: endswith_def startswith_def)
  also have "\<dots> = (\<exists>r. p = r @ ''/'')"
    by (metis rev_eq_Cons_iff rev_rev_ident rev.simps(2) rev_swap)
  finally show ?thesis .
qed

lemma join2_valid:
  assumes "valid_name n"
  shows "join2 p n = (if p = [] \<or> endswith p ''/'' then p @ n else p @ ''/'' @ n)"
  using assms by (cases n) (auto simp: join2_def valid_name_def startswith_slash)

lemma segments_join2:
  assumes "valid_name n"
  shows "segments (join2 p n) = segments p @ [n]"
proof (cases "p = []")
  case True
  with assms show ?thesis
    by (simp add: join2_valid segments_def py_split_no_sep valid_name_def)
next
  case False
  show ?thesis
  proof (cases "endswith p ''/''")
    case True
    then obtain r where r: "p = r @ ''/''" by (auto simp: endswith_slash)
    have "py_split CHR ''/'' (r @ CHR ''/'' # n) = py_split CHR ''/'' r @ [n]"
      using assms by (simp add: py_split_append_sep py_split_no_sep valid_name_def)
    moreover have "py_split CHR ''/'' (r @ ''/'') = py_split CHR ''/'' r @ [[]]"
      by (simp add: py_split_append_sep)
    ultimately show ?thesis using assms True r
      by (simp add: join2_valid segments_def valid_name_def)
  next
    case nosl: False
    have "py_split CHR ''/'' (p @ CHR ''/'' # n) = py_split CHR ''/'' p @ [n]"
      using assms by (simp add: py_split_append_sep py_split_no_sep valid_name_def)
    then show ?thesis using assms nosl False
      by (simp add: join2_valid segments_def valid_name_def)
  qed
qed

lemma startswith_join2:
  assumes "valid_name n" "p \<noteq> []"
  shows "startswith (join2 p n) ''/'' = startswith p ''/''"
  using assms by (cases p) (auto simp: join2_valid startswith_slash)

lemma resolve_join2:
  assumes "valid_name n"
  shows "resolve w (join2 p n) = resolve w p @ [n]"
proof (cases "p = []")
  case True
  have ns: "\<not> startswith (join2 [] n) ''/''"
    using assms by (cases n) (auto simp: join2_valid startswith_slash valid_name_def)
  have "\<not> startswith [] ''/''" by (simp add: startswith_slash)
  with ns True assms show ?thesis
    by (simp add: resolve_def segments_join2)
next
  case False
  with assms show ?thesis
    by (simp add: resolve_def segments_join2 startswith_join2)
qed

lemma join2_ne: "valid_name n \<Longrightarrow> join2 p n \<noteq> []"
  by (auto simp: join2_valid valid_name_def)

lemma last_py_split_join2:
  assumes "valid_name n"
  shows "last (py_split CHR ''/'' (join2 p n)) = n"
proof -
  have a: "last (py_split CHR ''/'' (r @ CHR ''/'' # n)) = n" for r
    using assms by (simp add: py_split_append_sep py_split_no_sep valid_name_def)
  show ?thesis
  proof (cases "p = []")
    case True
    with assms show ?thesis by (simp add: join2_valid py_split_no_sep valid_name_def)
  next
    case False
    show ?thesis
    proof (cases "endswith p ''/''")
      case True
      then obtain r where "p = r @ ''/''" by (auto simp: endswith_slash)
      with a [of r] assms True show ?thesis by (simp add: join2_valid)
    next
      case False
      with a [of p] assms \<open>p \<noteq> []\<close> show ?thesis by (simp add: join2_valid)
    qed
  qed
qed

lemma must_be_dir_join2: "valid_name n \<Longrightarrow> \<not> must_be_dir (join2 p n)"
  by (simp add: must_be_dir_def last_py_split_join2 valid_name_def)

lemma walk_append:
  "walk n (ps @ qs) = (case walk n ps of Inl e \<Rightarrow> Inl e | Inr m \<Rightarrow> walk m qs)"
  by (induction n ps rule: walk.induct) (auto split: option.splits)

lemma stat_join2:
  assumes "valid_name n"
  shows "stat w (join2 p n) = walk (fs_root w) (resolve w p @ [n])"
  using assms
  by (auto simp: stat_def join2_ne resolve_join2 must_be_dir_join2 split: sum.splits node.splits)


lemma update_at_Cons:
  "ss \<noteq> [] \<Longrightarrow> update_at (s # ss) v (Dir es) =
     (case map_of es s of
        None \<Rightarrow> Dir es
      | Some c \<Rightarrow> Dir (AList.update s (update_at ss v c) es))"
  by (cases ss) auto

lemma walk_update_at_parent:
  "walk r dp = Inr (Dir es) \<Longrightarrow>
   walk (update_at (dp @ [n]) v r) dp =
     Inr (Dir (case v of None \<Rightarrow> AList.delete n es | Some c \<Rightarrow> AList.update n c es))"
proof (induction dp arbitrary: r)
  case Nil
  then show ?case by simp
next
  case (Cons s ss)
  then obtain es0 c where r: "r = Dir es0" and c: "map_of es0 s = Some c"
    and w: "walk c ss = Inr (Dir es)"
    by (cases r) (auto split: option.splits)
  from Cons.IH [OF w] r c show ?case
    by (simp add: update_at_Cons update_conv')
qed

lemma walk_update_at_same:
  assumes "walk r dp = Inr (Dir es)"
  shows "walk (update_at (dp @ [n]) v r) (dp @ [n]) =
     (case v of None \<Rightarrow> Inl FileNotFoundError | Some c \<Rightarrow> Inr c)"
  using walk_update_at_parent [OF assms, of n v]
  by (cases v) (simp_all add: walk_append update_conv' delete_conv')

lemma write_file_read_file:
  assumes "write_file w p b = Inr w'"
  shows "read_file w' p = Inr b"
proof -
  let ?rp = "resolve w p"
  from assms have p: "p \<noteq> []" and rp: "?rp \<noteq> []" and nd: "\<not> must_be_dir p"
    by (auto simp: write_file_def split: if_splits)
  from assms obtain es where es: "walk (fs_root w) (butlast ?rp) = Inr (Dir es)"
    and w': "w' = w\<lparr>fs_root := update_at ?rp (Some (File b)) (fs_root w)\<rparr>"
    using p rp nd
    by (auto simp: write_file_def split: sum.splits node.splits option.splits)
  have res: "resolve w' p = ?rp" by (simp add: w' resolve_def)
  have "walk (update_at (butlast ?rp @ [last ?rp]) (Some (File b)) (fs_root w))
          (butlast ?rp @ [last ?rp]) = Inr (File b)"
    using walk_update_at_same [OF es, of "last ?rp" "Some (File b)"] by simp
  with rp have "walk (fs_root w') ?rp = Inr (File b)" by (simp add: w')
  with p nd res show ?thesis by (simp add: read_file_def stat_def)
qed

lemma put_object_get_object:
  assumes "put_object w bucket key b = Inr w'"
  shows "get_object w' bucket key = Inr b"
  using assms
  by (auto simp: put_object_def get_object_def bucket_objects_def update_conv'
           split: if_splits option.splits sum.splits)

text \<open>Unfolding the path and file system operations on concrete states.\<close>

lemmas path_eval = os_path_join_def join2_def startswith_def endswith_def
  page_content_file_def page_file_def str_int_def str_nat.simps digit_char_def
  resolve_def segments_def must_be_dir_def

lemmas fs_eval = stat_def write_file_def read_file_def os_path_exists_def os_path_isdir_def
  os_listdir_def os_remove_def os_rmdir_def os_makedirs_def

lemmas s3_eval = bucket_objects_def list_objects_v2_def delete_objects_def put_object_def
  get_object_def download_file_def max_keys_def

section \<open>Page contents\<close>

lemma merge_surrogates_id: "no_surrogate_pair s \<Longrightarrow> merge_surrogates s = s"
  by (induction s rule: no_surrogate_pair.induct) auto

text \<open>
  Claim C6, as amended. When \<^verbatim>\<open>save_page_content\<close> returns, \<^verbatim>\<open>load_page_content\<close> of
  the same page in the state it leaves returns the string saved with every high surrogate
  that is immediately followed by a low surrogate merged with it into one code point, on
  both backends; this is exactly the string saved when it holds no such pair. When the
  page-content file cannot be opened, the local backend returns \<^verbatim>\<open>None\<close> if the error
  is \<^verbatim>\<open>FileNotFoundError\<close> and raises the error otherwise; the remote backend returns
  \<^verbatim>\<open>None\<close> whenever the object cannot be fetched.
\<close>

theorem load_page_content_after_save:
  "(\<forall>w'. local_save_page_content base kb_id doc_id n s w = Inr w' \<longrightarrow>
      local_load_page_content base kb_id doc_id n w' = Inr (JStr (merge_surrogates s))
      \<and> (no_surrogate_pair s \<longrightarrow> local_load_page_content base kb_id doc_id n w' = Inr (JStr s)))
   \<and> (\<forall>e. stat w (os_path_join base [kb_id, doc_id, page_content_file n]) = Inl e \<longrightarrow>
      local_load_page_content base kb_id doc_id n w =
        (if e = FileNotFoundError then Inr JNull else Inl e))
   \<and> (\<forall>w'. s3_save_page_content bucket kb_id doc_id n s w = Inr w' \<longrightarrow>
      s3_load_page_content bucket kb_id doc_id n w' = Inr (JStr (merge_surrogates s))
      \<and> (no_surrogate_pair s \<longrightarrow> s3_load_page_content bucket kb_id doc_id n w' = Inr (JStr s)))
   \<and> (\<forall>e. get_object w bucket (kb_id @ ''/'' @ doc_id @ ''/'' @ page_content_file n) = Inl e \<longrightarrow>
      s3_load_page_content bucket kb_id doc_id n w = Inr JNull)"
proof (intro conjI allI impI)
  fix w' assume "local_save_page_content base kb_id doc_id n s w = Inr w'"
  then have "read_file w' (os_path_join base [kb_id, doc_id, page_content_file n])
      = Inr (json_dump (JDict [(''content'', JStr s)]))"
    unfolding local_save_page_content_def by (rule write_file_read_file)
  then show l: "local_load_page_content base kb_id doc_id n w' = Inr (JStr (merge_surrogates s))"
    by (simp add: local_load_page_content_def json_dump_def)
  assume "no_surrogate_pair s"
  with l show "local_load_page_content base kb_id doc_id n w' = Inr (JStr s)"
    by (simp add: merge_surrogates_id)
next
  fix e
  assume "stat w (os_path_join base [kb_id, doc_id, page_content_file n]) = Inl e"
  then show "local_load_page_content base kb_id doc_id n w =
      (if e = FileNotFoundError then Inr JNull else Inl e)"
    by (simp add: local_load_page_content_def read_file_def)
next
  fix w' assume "s3_save_page_content bucket kb_id doc_id n s w = Inr w'"
  then have "put_object w bucket (kb_id @ ''/'' @ doc_id @ ''/'' @ page_content_file n)
      (json_dump (JDict [(''content'', JStr s)])) = Inr w'"
    by (auto simp: s3_save_page_content_def split: sum.splits)
  then have "get_object w' bucket (kb_id @ ''/'' @ doc_id @ ''/'' @ page_content_file n)
      = Inr (json_dump (JDict [(''content'', JStr s)]))"
    by (rule put_object_get_object)
  then show l: "s3_load_page_content bucket kb_id doc_id n w' = Inr (JStr (merge_surrogates s))"
    by (simp add: s3_load_page_content_def json_dump_def)
  assume "no_surrogate_pair s"
  with l show "s3_load_page_content bucket kb_id doc_id n w' = Inr (JStr s)"
    by (simp add: merge_surrogates_id)
next
  fix e
  assume "get_object w bucket (kb_id @ ''/'' @ doc_id @ ''/'' @ page_content_file n) = Inl e"
  then show "s3_load_page_content bucket kb_id doc_id n w = Inr JNull"
    by (simp add: s3_load_page_content_def)
qed

text \<open>
  Claim C6, counterexample. A string of a high surrogate followed by a low surrogate is
  saved and loaded as the single code point of the pair, on both backends. Where the
  document path is a regular file no page content was ever written, and the local
  \<^verbatim>\<open>load_page_content\<close> raises \<^verbatim>\<open>NotADirectoryError\<close>.
\<close>

theorem load_page_content_not_the_string_saved:
  "local_save_page_content ''/data'' ''kb'' ''doc'' 5 [0xD83D, 0xDE00] doc_world =
     Inr (doc_world\<lparr>fs_root := Dir [(''data'', Dir [(''kb'', Dir [(''doc'',
        Dir [(''page_content_5.json'', File (Json_text (JDict [(''content'', JStr [0x1F600])])))])])])]\<rparr>)
   \<and> local_load_page_content ''/data'' ''kb'' ''doc'' 5
        (doc_world\<lparr>fs_root := Dir [(''data'', Dir [(''kb'', Dir [(''doc'',
        Dir [(''page_content_5.json'', File (Json_text (JDict [(''content'', JStr [0x1F600])])))])])])]\<rparr>)
      = Inr (JStr [0x1F600])
   \<and> s3_save_page_content ''bucket'' ''kb'' ''doc'' 5 [0xD83D, 0xDE00] doc_world =
        Inr (doc_world\<lparr>s3_buckets := (s3_buckets doc_world)(''bucket'' \<mapsto>
          [(''kb/doc/page_content_5.json'', Json_text (JDict [(''content'', JStr [0x1F600])]))])\<rparr>)
   \<and> s3_load_page_content ''bucket'' ''kb'' ''doc'' 5
        (doc_world\<lparr>s3_buckets := (s3_buckets doc_world)(''bucket'' \<mapsto>
          [(''kb/doc/page_content_5.json'', Json_text (JDict [(''content'', JStr [0x1F600])]))])\<rparr>)
      = Inr (JStr [0x1F600])
   \<and> JStr [0x1F600] \<noteq> JStr [0xD83D, 0xDE00]
   \<and> local_load_page_content ''/data'' ''kb'' ''doc'' 1 blocked_world = Inl NotADirectoryError"
proof -
  have m: "merge_surrogates [0xD83D, 0xDE00] = [0x1F600]"
    by (simp add: high_surrogate_def low_surrogate_def)
  have a: "local_save_page_content ''/data'' ''kb'' ''doc'' 5 [0xD83D, 0xDE00] doc_world =
     Inr (doc_world\<lparr>fs_root := Dir [(''data'', Dir [(''kb'', Dir [(''doc'',
        Dir [(''page_content_5.json'', File (Json_text (JDict [(''content'', JStr [0x1F600])])))])])])]\<rparr>)"
    by (simp add: local_save_page_content_def json_dump_def high_surrogate_def low_surrogate_def
          doc_world_def path_eval fs_eval)
  have b: "local_load_page_content ''/data'' ''kb'' ''doc'' 5
        (doc_world\<lparr>fs_root := Dir [(''data'', Dir [(''kb'', Dir [(''doc'',
        Dir [(''page_content_5.json'', File (Json_text (JDict [(''content'', JStr [0x1F600])])))])])])]\<rparr>)
      = Inr (JStr [0x1F600])"
    by (simp add: local_load_page_content_def doc_world_def path_eval fs_eval)
  have c: "s3_save_page_content ''bucket'' ''kb'' ''doc'' 5 [0xD83D, 0xDE00] doc_world =
        Inr (doc_world\<lparr>s3_buckets := (s3_buckets doc_world)(''bucket'' \<mapsto>
          [(''kb/doc/page_content_5.json'', Json_text (JDict [(''content'', JStr [0x1F600])]))])\<rparr>)"
    by (simp add: s3_save_page_content_def json_dump_def high_surrogate_def low_surrogate_def
          doc_world_def path_eval s3_eval)
  have d: "s3_load_page_content ''bucket'' ''kb'' ''doc'' 5
        (doc_world\<lparr>s3_buckets := (s3_buckets doc_world)(''bucket'' \<mapsto>
          [(''kb/doc/page_content_5.json'', Json_text (JDict [(''content'', JStr [0x1F600])]))])\<rparr>)
      = Inr (JStr [0x1F600])"
    by (simp add: s3_load_page_content_def doc_world_def path_eval s3_eval)
  have e: "JStr [0x1F600] \<noteq> JStr [0xD83D, 0xDE00]" by simp
  have f: "local_load_page_content ''/data'' ''kb'' ''doc'' 1 blocked_world = Inl NotADirectoryError"
    by (simp add: local_load_page_content_def blocked_world_def path_eval fs_eval)
  from a b c d e f show ?thesis by blast
qed

theorem load_page_content_after_save_witness:
  "no_surrogate_pair (ascii ''hello'')
   \<and> local_save_page_content ''/data'' ''kb'' ''doc'' 5 (ascii ''hello'') doc_world =
     Inr (doc_world\<lparr>fs_root := Dir [(''data'', Dir [(''kb'', Dir [(''doc'',
        Dir [(''page_content_5.json'',
              File (Json_text (JDict [(''content'', JStr (ascii ''hello''))])))])])])]\<rparr>)
   \<and> local_load_page_content ''/data'' ''kb'' ''doc'' 5
        (doc_world\<lparr>fs_root := Dir [(''data'', Dir [(''kb'', Dir [(''doc'',
        Dir [(''page_content_5.json'',
              File (Json_text (JDict [(''content'', JStr (ascii ''hello''))])))])])])]\<rparr>)
      = Inr (JStr (ascii ''hello''))
   \<and> stat doc_world ''/data/kb/doc/page_content_5.json'' = Inl FileNotFoundError
   \<and> local_load_page_content ''/data'' ''kb'' ''doc'' 5 doc_world = Inr JNull
   \<and> stat blocked_world ''/data/kb/doc/page_content_5.json'' = Inl NotADirectoryError
   \<and> local_load_page_content ''/data'' ''kb'' ''doc'' 5 blocked_world = Inl NotADirectoryError
   \<and> s3_save_page_content ''bucket'' ''kb'' ''doc'' 5 (ascii ''hello'') doc_world =
        Inr (doc_world\<lparr>s3_buckets := (s3_buckets doc_world)(''bucket'' \<mapsto>
          [(''kb/doc/page_content_5.json'',
            Json_text (JDict [(''content'', JStr (ascii ''hello''))]))])\<rparr>)
   \<and> s3_load_page_content ''bucket'' ''kb'' ''doc'' 5
        (doc_world\<lparr>s3_buckets := (s3_buckets doc_world)(''bucket'' \<mapsto>
          [(''kb/doc/page_content_5.json'',
            Json_text (JDict [(''content'', JStr (ascii ''hello''))]))])\<rparr>)
      = Inr (JStr (ascii ''hello''))
   \<and> get_object doc_world ''bucket'' ''kb/doc/page_content_5.json'' = Inl NoSuchKey
   \<and> s3_load_page_content ''bucket'' ''kb'' ''doc'' 5 doc_world = Inr JNull"
proof -
  let ?W = "doc_world\<lparr>fs_root := Dir [(''data'', Dir [(''kb'', Dir [(''doc'',
        Dir [(''page_content_5.json'',
              File (Json_text (JDict [(''content'', JStr (ascii ''hello''))])))])])])]\<rparr>"
  let ?V = "doc_world\<lparr>s3_buckets := (s3_buckets doc_world)(''bucket'' \<mapsto>
          [(''kb/doc/page_content_5.json'',
            Json_text (JDict [(''content'', JStr (ascii ''hello''))]))])\<rparr>"
  have ns: "no_surrogate_pair (ascii ''hello'')"
    by (simp add: ascii_def high_surrogate_def low_surrogate_def)
  have m: "merge_surrogates (ascii ''hello'') = ascii ''hello''"
    using ns by (rule merge_surrogates_id)
  have a: "local_save_page_content ''/data'' ''kb'' ''doc'' 5 (ascii ''hello'') doc_world = Inr ?W"
    by (simp add: local_save_page_content_def json_dump_def m doc_world_def path_eval fs_eval
          del: merge_surrogates.simps)
  have b: "stat doc_world (os_path_join ''/data'' [''kb'', ''doc'', page_content_file 5])
      = Inl FileNotFoundError"
    by (simp add: doc_world_def path_eval fs_eval)
  have b': "stat blocked_world (os_path_join ''/data'' [''kb'', ''doc'', page_content_file 5])
      = Inl NotADirectoryError"
    by (simp add: blocked_world_def path_eval fs_eval)
  have p: "os_path_join ''/data'' [''kb'', ''doc'', page_content_file 5]
      = ''/data/kb/doc/page_content_5.json''"
    by (simp add: path_eval)
  have c: "s3_save_page_content ''bucket'' ''kb'' ''doc'' 5 (ascii ''hello'') doc_world = Inr ?V"
    by (simp add: s3_save_page_content_def json_dump_def m doc_world_def path_eval s3_eval
          del: merge_surrogates.simps)
  have d: "get_object doc_world ''bucket'' (''kb'' @ ''/'' @ ''doc'' @ ''/'' @ page_content_file 5)
      = Inl NoSuchKey"
    by (simp add: doc_world_def path_eval s3_eval)
  have k: "''kb'' @ ''/'' @ ''doc'' @ ''/'' @ page_content_file 5 = ''kb/doc/page_content_5.json''"
    by (simp add: path_eval)
  note t = load_page_content_after_save [of "''/data''" "''kb''" "''doc''" 5 "ascii ''hello''" _
      "''bucket''"]
  from t [of doc_world] a ns
  have l1: "local_load_page_content ''/data'' ''kb'' ''doc'' 5 ?W = Inr (JStr (ascii ''hello''))"
    by blast
  from t [of doc_world] b
  have l2: "local_load_page_content ''/data'' ''kb'' ''doc'' 5 doc_world = Inr JNull"
    by simp
  from t [of blocked_world] b'
  have l3: "local_load_page_content ''/data'' ''kb'' ''doc'' 5 blocked_world = Inl NotADirectoryError"
    by simp
  from t [of doc_world] c ns
  have l4: "s3_load_page_content ''bucket'' ''kb'' ''doc'' 5 ?V = Inr (JStr (ascii ''hello''))"
    by blast
  from t [of doc_world] d
  have l5: "s3_load_page_content ''bucket'' ''kb'' ''doc'' 5 doc_world = Inr JNull"
    by blast
  from ns a l1 b l2 b' l3 c l4 d l5 show ?thesis unfolding p k by blast
qed

section \<open>Missing and malformed data on the read paths\<close>

text \<open>
  Claim C4. For a document folder that does not exist, \<^verbatim>\<open>LocalFileSystem.get_all_jpg_files\<close>
  raises \<^verbatim>\<open>FileNotFoundError\<close> out of \<^verbatim>\<open>os.listdir\<close>, while every other read path
  returns an empty or absent result there, as does \<^verbatim>\<open>S3FileSystem.get_all_jpg_files\<close>.
\<close>

theorem local_get_all_jpg_files_missing_folder_raises:
  "local_get_all_jpg_files ''/data'' ''kb'' ''absent'' doc_world = Inl FileNotFoundError
   \<and> local_get_files ''/data'' ''kb'' ''absent'' (Some 1) (Some 3) doc_world = Inr []
   \<and> s3_get_all_jpg_files ''/data'' ''bucket'' ''kb'' ''absent'' doc_world = Inr ([], doc_world)
   \<and> local_load_page_content ''/data'' ''kb'' ''absent'' 1 doc_world = Inr JNull
   \<and> local_load_page_content_range ''/data'' ''kb'' ''absent'' 1 2 doc_world = Inr []
   \<and> local_load_data ''/data'' ''kb'' ''absent'' ''elements'' doc_world = Inr JNull"
proof (intro conjI)
  show "local_get_all_jpg_files ''/data'' ''kb'' ''absent'' doc_world = Inl FileNotFoundError"
    by (simp add: local_get_all_jpg_files_def doc_world_def path_eval fs_eval)
  show "local_get_files ''/data'' ''kb'' ''absent'' (Some 1) (Some 3) doc_world = Inr []"
    by (simp add: local_get_files_def upto.simps extensions_def doc_world_def path_eval fs_eval)
  show "s3_get_all_jpg_files ''/data'' ''bucket'' ''kb'' ''absent'' doc_world = Inr ([], doc_world)"
    by (simp add: s3_get_all_jpg_files_def doc_world_def s3_eval startswith_def)
  show one: "local_load_page_content ''/data'' ''kb'' ''absent'' 1 doc_world = Inr JNull"
    by (simp add: local_load_page_content_def doc_world_def path_eval fs_eval)
  have two: "local_load_page_content ''/data'' ''kb'' ''absent'' 2 doc_world = Inr JNull"
    by (simp add: local_load_page_content_def doc_world_def path_eval fs_eval)
  have "[1..2] = [1, 2::int]" by (simp add: upto.simps)
  then show "local_load_page_content_range ''/data'' ''kb'' ''absent'' 1 2 doc_world = Inr []"
    by (simp add: local_load_page_content_range_def one two)
  show "local_load_data ''/data'' ''kb'' ''absent'' ''elements'' doc_world = Inr JNull"
    by (simp add: local_load_data_def doc_world_def path_eval fs_eval)
qed

text \<open>
  Claim C5. For a page-content file that is not JSON, \<^verbatim>\<open>LocalFileSystem.load_page_content\<close>
  lets \<^verbatim>\<open>JSONDecodeError\<close> escape (it catches \<^verbatim>\<open>FileNotFoundError\<close> only), while
  \<^verbatim>\<open>LocalFileSystem.load_data\<close> and both remote loaders return \<^verbatim>\<open>None\<close> for the same
  content.
\<close>

theorem local_load_page_content_malformed_json_raises:
  "local_load_page_content ''/data'' ''kb'' ''doc'' 1 broken_world = Inl JSONDecodeError
   \<and> local_load_data ''/data'' ''kb'' ''doc'' ''page_content_1'' broken_world = Inr JNull
   \<and> s3_load_page_content ''bucket'' ''kb'' ''doc'' 1 broken_world = Inr JNull
   \<and> s3_load_data ''bucket'' ''kb'' ''doc'' ''page_content_1'' broken_world = Inr JNull"
proof (intro conjI)
  show "local_load_page_content ''/data'' ''kb'' ''doc'' 1 broken_world = Inl JSONDecodeError"
    by (simp add: local_load_page_content_def broken_world_def path_eval fs_eval)
  show "local_load_data ''/data'' ''kb'' ''doc'' ''page_content_1'' broken_world = Inr JNull"
    by (simp add: local_load_data_def broken_world_def path_eval fs_eval)
  show "s3_load_page_content ''bucket'' ''kb'' ''doc'' 1 broken_world = Inr JNull"
    by (simp add: s3_load_page_content_def broken_world_def path_eval s3_eval)
  show "s3_load_data ''bucket'' ''kb'' ''doc'' ''page_content_1'' broken_world = Inr JNull"
    by (simp add: s3_load_data_def broken_world_def path_eval s3_eval)
qed

lemma local_first_ext_extensions:
  "local_first_ext w d i extensions =
     (case first_match (\<lambda>ext. os_path_exists w (os_path_join d [page_file i ext]))
             (\<lambda>ext. os_path_join d [page_file i ext]) of
        [] \<Rightarrow> None | p # ps \<Rightarrow> Some p)"
  by (simp add: extensions_def first_match_def Let_def)

lemma local_pages_loop_eq:
  "local_pages_loop w d pages acc =
     acc @ concat (map (\<lambda>i. first_match (\<lambda>ext. os_path_exists w (os_path_join d [page_file i ext]))
                              (\<lambda>ext. os_path_join d [page_file i ext])) pages)"
proof (induction pages arbitrary: acc)
  case Nil
  then show ?case by simp
next
  case (Cons i pages)
  show ?case
    by (simp add: Cons.IH local_first_ext_extensions first_match_def)
qed

lemma same_env_refl [simp]: "same_env w w"
  by (simp add: same_env_def)

lemma same_env_trans: "same_env w'' w' \<Longrightarrow> same_env w' w \<Longrightarrow> same_env w'' w"
  by (simp add: same_env_def)

lemma same_env_resolve: "same_env w' w \<Longrightarrow> resolve w' p = resolve w p"
  by (simp add: same_env_def resolve_def)

lemma same_env_s3_has: "same_env w' w \<Longrightarrow> s3_has w' bucket key = s3_has w bucket key"
  by (simp add: same_env_def s3_has_def bucket_objects_def)

lemma digit_char_digit: "d < 10 \<Longrightarrow> digit_char d \<in> set ''0123456789''"
  unfolding digit_char_def by (rule nth_mem) simp

lemma str_nat_digits: "set (str_nat n) \<subseteq> set ''0123456789''"
proof (induction n rule: str_nat.induct)
  case (1 n)
  show ?case
  proof (cases "n < 10")
    case True
    have "str_nat n = [digit_char n]" using True by (subst str_nat.simps) simp
    with digit_char_digit [OF True] show ?thesis by simp
  next
    case False
    have eq: "str_nat n = str_nat (n div 10) @ [digit_char (n mod 10)]"
      using False by (subst str_nat.simps) simp
    have "n mod 10 < 10" by simp
    from digit_char_digit [OF this] "1" [OF False] show ?thesis
      unfolding eq by simp
  qed
qed


lemma str_nat_no: "c \<notin> set ''0123456789'' \<Longrightarrow> c \<notin> set (str_nat n)"
  using str_nat_digits [of n] by blast

lemma str_int_no_slash: "CHR ''/'' \<notin> set (str_int i)"
  by (simp add: str_int_def str_nat_no)

lemma valid_page_file:
  assumes "ext \<in> set extensions"
  shows "valid_name (page_file i ext)"
proof -
  from assms consider "ext = ''.jpg''" | "ext = ''.jpeg''" | "ext = ''.png''"
    by (auto simp: extensions_def)
  then show ?thesis
    by cases (simp_all add: valid_name_def page_file_def str_int_no_slash)
qed

lemma valid_page_content_file: "valid_name (page_content_file n)"
  by (simp add: valid_name_def page_content_file_def str_int_no_slash)

lemma join2_valid_prefix:
  assumes "valid_name kb"
  shows "join2 base (kb @ CHR ''/'' # rest) = join2 base kb @ CHR ''/'' # rest"
  using assms by (cases kb) (auto simp: join2_def valid_name_def startswith_slash)

lemma resolve_slash_append:
  assumes "valid_name n" "p \<noteq> []"
  shows "resolve w (p @ ''/'' @ n) = resolve w p @ [n]"
proof -
  have "py_split CHR ''/'' (p @ CHR ''/'' # n) = py_split CHR ''/'' p @ [n]"
    using assms by (simp add: py_split_append_sep py_split_no_sep valid_name_def)
  then have "segments (p @ ''/'' @ n) = segments p @ [n]"
    using assms by (simp add: segments_def valid_name_def)
  moreover have "startswith (p @ ''/'' @ n) ''/'' = startswith p ''/''"
    using assms by (cases p) (auto simp: startswith_slash)
  ultimately show ?thesis by (simp add: resolve_def)
qed

lemma must_be_dir_slash_append:
  assumes "valid_name n"
  shows "\<not> must_be_dir (p @ ''/'' @ n)"
proof -
  have "py_split CHR ''/'' (p @ CHR ''/'' # n) = py_split CHR ''/'' p @ [n]"
    using assms by (simp add: py_split_append_sep py_split_no_sep valid_name_def)
  then show ?thesis using assms by (simp add: must_be_dir_def valid_name_def)
qed

lemma resolve_key_path:
  assumes "valid_name kb" "valid_name doc" "valid_name n"
  shows "resolve w (os_path_join base [kb @ ''/'' @ doc @ ''/'' @ n]) =
           resolve w (os_path_join base [kb, doc]) @ [n]"
    and "\<not> must_be_dir (os_path_join base [kb @ ''/'' @ doc @ ''/'' @ n])"
    and "os_path_join base [kb @ ''/'' @ doc @ ''/'' @ n] \<noteq> []"
proof -
  let ?X = "join2 base kb"
  have X: "?X \<noteq> []" using assms(1) by (rule join2_ne)
  have eq: "os_path_join base [kb @ ''/'' @ doc @ ''/'' @ n] = (?X @ ''/'' @ doc) @ ''/'' @ n"
    using assms(1) by (simp add: os_path_join_def join2_valid_prefix)
  have a: "resolve w ((?X @ ''/'' @ doc) @ ''/'' @ n) = resolve w (?X @ ''/'' @ doc) @ [n]"
    using assms(3) by (rule resolve_slash_append) simp
  have b: "resolve w (?X @ ''/'' @ doc) = resolve w ?X @ [doc]"
    using assms(2) X by (rule resolve_slash_append)
  have c: "resolve w (os_path_join base [kb, doc]) = resolve w ?X @ [doc]"
    using assms(2) by (simp add: os_path_join_def resolve_join2)
  show "resolve w (os_path_join base [kb @ ''/'' @ doc @ ''/'' @ n]) =
           resolve w (os_path_join base [kb, doc]) @ [n]"
    unfolding eq a b c by simp
  show "\<not> must_be_dir (os_path_join base [kb @ ''/'' @ doc @ ''/'' @ n])"
    unfolding eq using assms(3) by (rule must_be_dir_slash_append)
  show "os_path_join base [kb @ ''/'' @ doc @ ''/'' @ n] \<noteq> []"
    unfolding eq by simp
qed

lemma stat_folder:
  assumes "valid_name doc"
  shows "stat w (os_path_join base [kb, doc]) =
           walk (fs_root w) (resolve w (os_path_join base [kb, doc]))"
  using assms by (simp add: os_path_join_def stat_join2 resolve_join2)


lemma walk_fresh_dirs: "walk (fresh_dirs ss) ss = Inr (Dir [])"
  by (induction ss) auto

lemma mkdirs_walk: "mkdirs D r = Inr r' \<Longrightarrow> walk r' D = Inr (Dir [])"
proof (induction D r arbitrary: r' rule: mkdirs.induct)
  case (3 s ss es)
  show ?case
  proof (cases "map_of es s")
    case None
    with "3.prems" show ?thesis by (auto simp: update_conv' walk_fresh_dirs)
  next
    case (Some c)
    with "3.prems" obtain c' where c': "mkdirs ss c = Inr c'" and r': "r' = Dir (AList.update s c' es)"
      by (auto split: sum.splits)
    from "3.IH" [OF Some c'] r' show ?thesis by (simp add: update_conv')
  qed
qed simp_all

lemma list_all_update:
  "list_all P es \<Longrightarrow> P (k, v) \<Longrightarrow> list_all P (AList.update k v es)"
  by (induction es) auto

lemma files_no_dir:
  "list_all (\<lambda>e. is_file (snd e)) es \<Longrightarrow> map_of es n \<noteq> Some (Dir ds)"
proof
  assume a: "list_all (\<lambda>e. is_file (snd e)) es" and b: "map_of es n = Some (Dir ds)"
  from b have "(n, Dir ds) \<in> set es" by (rule map_of_SomeD)
  with a show False by (auto simp: list_all_iff)
qed

lemma write_file_mirror:
  assumes m: "mirror_dir w D" and r: "resolve w P = D @ [n]" and P: "P \<noteq> []"
    and nd: "\<not> must_be_dir P"
  shows "\<exists>w'. write_file w P b = Inr w' \<and> mirror_dir w' D \<and> same_env w' w"
proof -
  from m obtain es where es: "walk (fs_root w) D = Inr (Dir es)"
    and fl: "list_all (\<lambda>e. is_file (snd e)) es" by (auto simp: mirror_dir_def)
  let ?w' = "w\<lparr>fs_root := update_at (D @ [n]) (Some (File b)) (fs_root w)\<rparr>"
  have nodir: "\<And>ds. map_of es n \<noteq> Some (Dir ds)" using fl by (rule files_no_dir)
  have "write_file w P b = Inr ?w'"
    using P nd r es nodir
    by (auto simp: write_file_def split: option.splits node.splits)
  moreover have "mirror_dir ?w' D"
    using walk_update_at_parent [OF es, of n "Some (File b)"] fl
    by (auto simp: mirror_dir_def intro!: list_all_update)
  moreover have "same_env ?w' w" by (simp add: same_env_def)
  ultimately show ?thesis by blast
qed

lemma mirror_dir_exists:
  assumes "valid_name doc" "mirror_dir w (resolve w (os_path_join base [kb, doc]))"
  shows "os_path_exists w (os_path_join base [kb, doc])"
  using assms by (auto simp: os_path_exists_def stat_folder mirror_dir_def)

lemma mirror_dir_ready:
  assumes "valid_name doc" "mirror_dir w (resolve w (os_path_join base [kb, doc]))"
  shows "mirror_ready w (os_path_join base [kb, doc])"
  using assms by (auto simp: mirror_ready_def stat_folder mirror_dir_def)

lemma download_file_has:
  assumes "valid_name kb" "valid_name doc" "valid_name n"
    and "mirror_dir w (resolve w (os_path_join base [kb, doc]))"
    and "s3_has w bucket key"
  shows "\<exists>w'. download_file w bucket key (os_path_join base [kb @ ''/'' @ doc @ ''/'' @ n]) = Inr w'
           \<and> mirror_dir w' (resolve w (os_path_join base [kb, doc])) \<and> same_env w' w"
proof -
  from assms(5) obtain objs b where o: "bucket_objects w bucket = Inr objs"
    and b: "map_of objs key = Some b"
    by (auto simp: s3_has_def split: sum.splits)
  from write_file_mirror [OF assms(4) resolve_key_path(1) resolve_key_path(3) resolve_key_path(2),
      OF assms(1,2,3) assms(1,2,3) assms(1,2,3), of b]
  show ?thesis by (simp add: download_file_def o b)
qed

lemma download_file_has_not:
  assumes "\<not> s3_has w bucket key"
  shows "\<exists>e. download_file w bucket key p = Inl e"
  using assms by (auto simp: download_file_def s3_has_def split: sum.splits option.splits)

lemma s3_first_ext_mirror:
  assumes v: "valid_name kb" "valid_name doc"
    and m: "mirror_dir w (resolve w (os_path_join base [kb, doc]))"
    and e: "set exts \<subseteq> set extensions"
  shows "\<exists>w'. s3_first_ext base bucket kb doc i exts w =
           Inr (map_option (\<lambda>ext. os_path_join base [kb @ ''/'' @ doc @ ''/'' @ page_file i ext])
                  (find (\<lambda>ext. s3_has w bucket (kb @ ''/'' @ doc @ ''/'' @ page_file i ext)) exts), w')
         \<and> mirror_dir w' (resolve w (os_path_join base [kb, doc])) \<and> same_env w' w"
  using e
proof (induction exts)
  case Nil
  from m show ?case by simp
next
  case (Cons ext exts)
  then have ext: "ext \<in> set extensions" and rest: "set exts \<subseteq> set extensions" by auto
  have ex: "os_path_exists w (os_path_join base [kb, doc])"
    using v(2) m by (rule mirror_dir_exists)
  show ?case
  proof (cases "s3_has w bucket (kb @ ''/'' @ doc @ ''/'' @ page_file i ext)")
    case True
    from download_file_has [OF v valid_page_file [OF ext] m True]
    obtain w' where "download_file w bucket (kb @ ''/'' @ doc @ ''/'' @ page_file i ext)
        (os_path_join base [kb @ ''/'' @ doc @ ''/'' @ page_file i ext]) = Inr w'"
      and "mirror_dir w' (resolve w (os_path_join base [kb, doc]))" and "same_env w' w"
      by blast
    with True ex show ?thesis by (simp add: Let_def)
  next
    case False
    from download_file_has_not [OF False]
    obtain err where "download_file w bucket (kb @ ''/'' @ doc @ ''/'' @ page_file i ext)
        (os_path_join base [kb @ ''/'' @ doc @ ''/'' @ page_file i ext]) = Inl err"
      by blast
    with False ex Cons.IH [OF rest] show ?thesis by (simp add: Let_def)
  qed
qed

lemma makedirs_mirror:
  assumes v: "valid_name doc"
    and r: "mirror_ready w (os_path_join base [kb, doc])"
    and n: "\<not> mirror_dir w (resolve w (os_path_join base [kb, doc]))"
  shows "\<exists>w1. os_makedirs w (os_path_join base [kb, doc]) False = Inr w1
           \<and> \<not> os_path_exists w (os_path_join base [kb, doc])
           \<and> mirror_dir w1 (resolve w (os_path_join base [kb, doc])) \<and> same_env w1 w"
proof -
  let ?f = "os_path_join base [kb, doc]"
  from r n obtain e where st: "stat w ?f = Inl e"
    by (auto simp: mirror_ready_def mirror_dir_def stat_folder [OF v]
             split: sum.splits node.splits)
  with r obtain w1 where mk: "os_makedirs w ?f False = Inr w1"
    by (auto simp: mirror_ready_def split: sum.splits)
  then obtain rt where rt: "mkdirs (resolve w ?f) (fs_root w) = Inr rt"
    and w1: "w1 = w\<lparr>fs_root := rt\<rparr>"
    by (auto simp: os_makedirs_def split: if_splits sum.splits)
  from mkdirs_walk [OF rt] have "mirror_dir w1 (resolve w ?f)"
    by (simp add: mirror_dir_def w1)
  moreover have "same_env w1 w" by (simp add: same_env_def w1)
  moreover have "\<not> os_path_exists w ?f" by (simp add: os_path_exists_def st)
  ultimately show ?thesis using mk by blast
qed

lemma s3_first_ext_ready:
  assumes v: "valid_name kb" "valid_name doc"
    and r: "mirror_ready w (os_path_join base [kb, doc])"
    and e: "set (ext # exts) \<subseteq> set extensions"
  shows "\<exists>w'. s3_first_ext base bucket kb doc i (ext # exts) w =
           Inr (map_option (\<lambda>ext. os_path_join base [kb @ ''/'' @ doc @ ''/'' @ page_file i ext])
                  (find (\<lambda>ext. s3_has w bucket (kb @ ''/'' @ doc @ ''/'' @ page_file i ext))
                     (ext # exts)), w')
         \<and> mirror_dir w' (resolve w (os_path_join base [kb, doc])) \<and> same_env w' w"
proof (cases "mirror_dir w (resolve w (os_path_join base [kb, doc]))")
  case True
  from s3_first_ext_mirror [OF v True e] show ?thesis .
next
  case False
  let ?f = "os_path_join base [kb, doc]"
  from makedirs_mirror [OF v(2) r False]
  obtain w1 where mk: "os_makedirs w ?f False = Inr w1" and nex: "\<not> os_path_exists w ?f"
    and m1: "mirror_dir w1 (resolve w ?f)" and s1: "same_env w1 w"
    by blast
  have res: "resolve w1 ?f = resolve w ?f" using s1 by (rule same_env_resolve)
  have m1': "mirror_dir w1 (resolve w1 ?f)" using m1 by (simp add: res)
  have ex1: "os_path_exists w1 ?f" using v(2) m1' by (rule mirror_dir_exists)
  have step: "s3_first_ext base bucket kb doc i (ext # exts) w =
              s3_first_ext base bucket kb doc i (ext # exts) w1"
    using mk nex ex1 by (simp add: Let_def)
  from s3_first_ext_mirror [OF v m1' e, of bucket i]
  obtain w' where a: "s3_first_ext base bucket kb doc i (ext # exts) w1 =
           Inr (map_option (\<lambda>ext. os_path_join base [kb @ ''/'' @ doc @ ''/'' @ page_file i ext])
                  (find (\<lambda>ext. s3_has w1 bucket (kb @ ''/'' @ doc @ ''/'' @ page_file i ext))
                     (ext # exts)), w')"
    and b: "mirror_dir w' (resolve w1 ?f)" and c: "same_env w' w1"
    by blast
  have has: "\<And>k. s3_has w1 bucket k = s3_has w bucket k" using s1 by (rule same_env_s3_has)
  from a b c s1 show ?thesis
    unfolding step has res by (blast intro: same_env_trans)
qed

lemma find_extensions:
  "map_option path (find found extensions) =
     (case first_match found path of [] \<Rightarrow> None | p # ps \<Rightarrow> Some p)"
  by (simp add: extensions_def first_match_def)

lemma s3_pages_loop_eq:
  assumes v: "valid_name kb" "valid_name doc"
    and r: "mirror_ready w (os_path_join base [kb, doc])"
  shows "\<exists>w'. s3_pages_loop base bucket kb doc pages acc w =
           Inr (acc @ concat (map (\<lambda>i. first_match
                    (\<lambda>ext. s3_has w bucket (kb @ ''/'' @ doc @ ''/'' @ page_file i ext))
                    (\<lambda>ext. os_path_join base [kb @ ''/'' @ doc @ ''/'' @ page_file i ext])) pages), w')
         \<and> same_env w' w"
  using r
proof (induction pages arbitrary: acc w)
  case Nil
  show ?case by simp
next
  case (Cons i pages)
  let ?f = "os_path_join base [kb, doc]"
  have e: "set (''.jpg'' # [''.jpeg'', ''.png'']) \<subseteq> set extensions"
    by (simp add: extensions_def)
  from s3_first_ext_ready [OF v Cons.prems e, of bucket i]
  obtain w1 where a: "s3_first_ext base bucket kb doc i extensions w =
       Inr (map_option (\<lambda>ext. os_path_join base [kb @ ''/'' @ doc @ ''/'' @ page_file i ext])
              (find (\<lambda>ext. s3_has w bucket (kb @ ''/'' @ doc @ ''/'' @ page_file i ext)) extensions), w1)"
    and m1: "mirror_dir w1 (resolve w ?f)" and s1: "same_env w1 w"
    unfolding extensions_def by blast
  have res: "resolve w1 ?f = resolve w ?f" using s1 by (rule same_env_resolve)
  have r1: "mirror_ready w1 ?f"
    using v(2) m1 by (intro mirror_dir_ready) (simp_all add: res)
  have has: "\<And>k. s3_has w1 bucket k = s3_has w bucket k" using s1 by (rule same_env_s3_has)
  let ?hit = "first_match
      (\<lambda>ext. s3_has w bucket (kb @ ''/'' @ doc @ ''/'' @ page_file i ext))
      (\<lambda>ext. os_path_join base [kb @ ''/'' @ doc @ ''/'' @ page_file i ext])"
  let ?acc = "case (case ?hit of [] \<Rightarrow> None | p # ps \<Rightarrow> Some p) of
                None \<Rightarrow> acc | Some p \<Rightarrow> acc @ [p]"
  have acc: "?acc = acc @ ?hit" by (simp add: first_match_def)
  from Cons.IH [OF r1, of ?acc]
  obtain w' where b: "s3_pages_loop base bucket kb doc pages ?acc w1 =
           Inr (?acc @ concat (map (\<lambda>i. first_match
                    (\<lambda>ext. s3_has w1 bucket (kb @ ''/'' @ doc @ ''/'' @ page_file i ext))
                    (\<lambda>ext. os_path_join base [kb @ ''/'' @ doc @ ''/'' @ page_file i ext])) pages), w')"
    and c: "same_env w' w1"
    by blast
  have "s3_pages_loop base bucket kb doc (i # pages) acc w =
          s3_pages_loop base bucket kb doc pages ?acc w1"
    by (simp add: a find_extensions)
  with b c s1 show ?case
    unfolding has acc by (auto intro: same_env_trans)
qed

text \<open>
  Claim C1, as amended. The local \<^verbatim>\<open>get_files\<close> with both bounds set returns, page by
  page in the order of \<^verbatim>\<open>range(page_start, page_end + 1)\<close>, the path of the first
  extension among \<^verbatim>\<open>.jpg\<close>, \<^verbatim>\<open>.jpeg\<close>, \<^verbatim>\<open>.png\<close> for which \<^verbatim>\<open>os.path.exists\<close>
  holds and nothing for a page without image, so at most one path per page in increasing
  page order, and never an error. The remote \<^verbatim>\<open>get_files\<close> does the same, found
  meaning that the object is in the bucket, when the identifiers are plain path segments
  and the mirror folder \<^verbatim>\<open>base_path/kb_id/doc_id\<close> is a directory of regular files or
  can be created; an error of \<^verbatim>\<open>os.makedirs\<close> other than \<^verbatim>\<open>FileExistsError\<close> is
  raised. With a bound that is \<^verbatim>\<open>None\<close> the result is the empty list on both backends.
\<close>

theorem get_files_first_match_per_page:
  "local_get_files base kb_id doc_id (Some ps) (Some pe) w =
     Inr (concat (map (\<lambda>i. first_match
            (\<lambda>ext. os_path_exists w (os_path_join (os_path_join base [kb_id, doc_id]) [page_file i ext]))
            (\<lambda>ext. os_path_join (os_path_join base [kb_id, doc_id]) [page_file i ext])) [ps..pe]))
   \<and> local_get_files base kb_id doc_id None page_end w = Inr []
   \<and> local_get_files base kb_id doc_id page_start None w = Inr []
   \<and> (valid_name kb_id \<and> valid_name doc_id \<and> mirror_ready w (os_path_join base [kb_id, doc_id]) \<longrightarrow>
        (\<exists>w'. s3_get_files base bucket kb_id doc_id (Some ps) (Some pe) w =
           Inr (concat (map (\<lambda>i. first_match
                  (\<lambda>ext. s3_has w bucket (kb_id @ ''/'' @ doc_id @ ''/'' @ page_file i ext))
                  (\<lambda>ext. os_path_join base [kb_id @ ''/'' @ doc_id @ ''/'' @ page_file i ext])) [ps..pe]),
                w')))
   \<and> s3_get_files base bucket kb_id doc_id None page_end w = Inr ([], w)
   \<and> s3_get_files base bucket kb_id doc_id page_start None w = Inr ([], w)"
proof (intro conjI impI)
  show "local_get_files base kb_id doc_id (Some ps) (Some pe) w =
     Inr (concat (map (\<lambda>i. first_match
            (\<lambda>ext. os_path_exists w (os_path_join (os_path_join base [kb_id, doc_id]) [page_file i ext]))
            (\<lambda>ext. os_path_join (os_path_join base [kb_id, doc_id]) [page_file i ext])) [ps..pe]))"
    by (simp add: local_get_files_def local_pages_loop_eq)
  show "local_get_files base kb_id doc_id None page_end w = Inr []"
    by (simp add: local_get_files_def)
  show "local_get_files base kb_id doc_id page_start None w = Inr []"
    by (cases page_start) (simp_all add: local_get_files_def)
  show "s3_get_files base bucket kb_id doc_id None page_end w = Inr ([], w)"
    by (simp add: s3_get_files_def)
  show "s3_get_files base bucket kb_id doc_id page_start None w = Inr ([], w)"
    by (cases page_start) (simp_all add: s3_get_files_def)
next
  assume a: "valid_name kb_id \<and> valid_name doc_id \<and> mirror_ready w (os_path_join base [kb_id, doc_id])"
  then have v: "valid_name kb_id" "valid_name doc_id"
    and r: "mirror_ready w (os_path_join base [kb_id, doc_id])" by simp_all
  from s3_pages_loop_eq [OF v r, of bucket "[ps..pe]" "[]"]
  show "\<exists>w'. s3_get_files base bucket kb_id doc_id (Some ps) (Some pe) w =
           Inr (concat (map (\<lambda>i. first_match
                  (\<lambda>ext. s3_has w bucket (kb_id @ ''/'' @ doc_id @ ''/'' @ page_file i ext))
                  (\<lambda>ext. os_path_join base [kb_id @ ''/'' @ doc_id @ ''/'' @ page_file i ext])) [ps..pe]),
                w')"
    by (auto simp: s3_get_files_def)
qed

lemma upto_1_4: "[1..4] = [1, 2, 3, 4::int]"
  by (simp add: upto.simps)

theorem get_files_first_match_per_page_witness:
  "local_get_files ''/data'' ''kb'' ''doc'' (Some 1) (Some 4) pages_world =
     Inr [''/data/kb/doc/page_1.png'', ''/data/kb/doc/page_2.jpg'', ''/data/kb/doc/page_4.jpeg'']
   \<and> valid_name ''kb'' \<and> valid_name ''doc''
   \<and> mirror_ready pages_world (os_path_join ''/cache'' [''kb'', ''doc''])
   \<and> (\<exists>w'. s3_get_files ''/cache'' ''bucket'' ''kb'' ''doc'' (Some 1) (Some 4) pages_world =
         Inr ([''/cache/kb/doc/page_1.png'', ''/cache/kb/doc/page_2.jpg'',
               ''/cache/kb/doc/page_4.jpeg''], w'))"
proof -
  let ?L = "\<lambda>i. first_match
            (\<lambda>ext. os_path_exists pages_world
                     (os_path_join (os_path_join ''/data'' [''kb'', ''doc'']) [page_file i ext]))
            (\<lambda>ext. os_path_join (os_path_join ''/data'' [''kb'', ''doc'']) [page_file i ext])"
  let ?S = "\<lambda>i. first_match
            (\<lambda>ext. s3_has pages_world ''bucket'' (''kb'' @ ''/'' @ ''doc'' @ ''/'' @ page_file i ext))
            (\<lambda>ext. os_path_join ''/cache'' [''kb'' @ ''/'' @ ''doc'' @ ''/'' @ page_file i ext])"
  have v: "valid_name ''kb''" "valid_name ''doc''" by (simp_all add: valid_name_def)
  have r: "mirror_ready pages_world (os_path_join ''/cache'' [''kb'', ''doc''])"
    by (simp add: mirror_ready_def pages_world_def path_eval fs_eval)
  have l1: "?L 1 = [''/data/kb/doc/page_1.png'']"
    by (simp add: first_match_def pages_world_def path_eval fs_eval)
  have l2: "?L 2 = [''/data/kb/doc/page_2.jpg'']"
    by (simp add: first_match_def pages_world_def path_eval fs_eval)
  have l3: "?L 3 = []"
    by (simp add: first_match_def pages_world_def path_eval fs_eval)
  have l4: "?L 4 = [''/data/kb/doc/page_4.jpeg'']"
    by (simp add: first_match_def pages_world_def path_eval fs_eval)
  have s1: "?S 1 = [''/cache/kb/doc/page_1.png'']"
    by (simp add: first_match_def s3_has_def pages_world_def path_eval s3_eval)
  have s2: "?S 2 = [''/cache/kb/doc/page_2.jpg'']"
    by (simp add: first_match_def s3_has_def pages_world_def path_eval s3_eval)
  have s3: "?S 3 = []"
    by (simp add: first_match_def s3_has_def pages_world_def path_eval s3_eval)
  have s4: "?S 4 = [''/cache/kb/doc/page_4.jpeg'']"
    by (simp add: first_match_def s3_has_def pages_world_def path_eval s3_eval)
  have l: "concat (map ?L [1..4]) =
      [''/data/kb/doc/page_1.png'', ''/data/kb/doc/page_2.jpg'', ''/data/kb/doc/page_4.jpeg'']"
    unfolding upto_1_4 list.map concat.simps l1 l2 l3 l4 by simp
  have s: "concat (map ?S [1..4]) =
      [''/cache/kb/doc/page_1.png'', ''/cache/kb/doc/page_2.jpg'', ''/cache/kb/doc/page_4.jpeg'']"
    unfolding upto_1_4 list.map concat.simps s1 s2 s3 s4 by simp
  from get_files_first_match_per_page [of "''/data''" "''kb''" "''doc''" 1 4 pages_world]
  have a: "local_get_files ''/data'' ''kb'' ''doc'' (Some 1) (Some 4) pages_world =
     Inr [''/data/kb/doc/page_1.png'', ''/data/kb/doc/page_2.jpg'', ''/data/kb/doc/page_4.jpeg'']"
    unfolding l by (rule conjunct1)
  from get_files_first_match_per_page [of "''/cache''" "''kb''" "''doc''" 1 4 pages_world
      None None "''bucket''"]
  have "valid_name ''kb'' \<and> valid_name ''doc'' \<and>
          mirror_ready pages_world (os_path_join ''/cache'' [''kb'', ''doc'']) \<longrightarrow>
        (\<exists>w'. s3_get_files ''/cache'' ''bucket'' ''kb'' ''doc'' (Some 1) (Some 4) pages_world =
           Inr (concat (map ?S [1..4]), w'))"
    by (elim conjE)
  with v r have b: "\<exists>w'. s3_get_files ''/cache'' ''bucket'' ''kb'' ''doc'' (Some 1) (Some 4) pages_world =
         Inr ([''/cache/kb/doc/page_1.png'', ''/cache/kb/doc/page_2.jpg'',
               ''/cache/kb/doc/page_4.jpeg''], w')"
    unfolding s by blast
  from a b v r show ?thesis by blast
qed

text \<open>
  Claim C1, counterexample. The mirror root \<^verbatim>\<open>/cache\<close> is a regular file, so the
  mirror folder does not exist and \<^verbatim>\<open>os.makedirs\<close> raises \<^verbatim>\<open>NotADirectoryError\<close>,
  which the remote \<^verbatim>\<open>get_files\<close> does not catch: the call with both bounds set ends
  in an error.
\<close>

theorem s3_get_files_mirror_root_is_a_file:
  "\<not> os_path_exists blocked_world (os_path_join ''/cache'' [''kb'', ''doc''])
   \<and> os_makedirs blocked_world (os_path_join ''/cache'' [''kb'', ''doc'']) False =
       Inl NotADirectoryError
   \<and> s3_get_files ''/cache'' ''bucket'' ''kb'' ''doc'' (Some 1) (Some 1) blocked_world =
       Inl NotADirectoryError"
proof -
  have a: "\<not> os_path_exists blocked_world (os_path_join ''/cache'' [''kb'', ''doc''])"
    by (simp add: blocked_world_def path_eval fs_eval)
  have b: "os_makedirs blocked_world (os_path_join ''/cache'' [''kb'', ''doc'']) False =
       Inl NotADirectoryError"
    by (simp add: blocked_world_def path_eval fs_eval)
  have "s3_first_ext ''/cache'' ''bucket'' ''kb'' ''doc'' 1 extensions blocked_world =
       Inl NotADirectoryError"
    by (simp add: extensions_def Let_def a b)
  then have c: "s3_get_files ''/cache'' ''bucket'' ''kb'' ''doc'' (Some 1) (Some 1) blocked_world =
       Inl NotADirectoryError"
    by (simp add: s3_get_files_def)
  from a b c show ?thesis by blast
qed


lemma walk_Dir_stat:
  "p \<noteq> [] \<Longrightarrow> walk (fs_root w) (resolve w p) = Inr (Dir es) \<Longrightarrow> stat w p = Inr (Dir es)"
  by (simp add: stat_def)
















lemma update_at_File [simp]: "update_at ps v (File b) = File b"
  by (cases ps) simp_all



lemma resolve_fs_root [simp]: "resolve (w\<lparr>fs_root := r\<rparr>) p = resolve w p"
  by (simp add: resolve_def)

























section \<open>The page number of a page image\<close>








lemma py_split_not_Nil: "py_split c s \<noteq> []"
  by (induction s) (auto split: list.splits)









section \<open>Sorting by page number\<close>






section \<open>All page images of the remote backend\<close>








end
